theory Spec2Isabelle
  imports Complex_Main
begin

section \<open>Data model of the text editor (TextEditor.tsx)\<close>

text \<open>
  JavaScript numbers that carry coordinates, sizes and angles are modelled as \<open>real\<close>;
  counters and array indices (\<open>currentStep\<close>, \<open>Date.now()\<close>) as \<open>nat\<close>. Field names
  that clash with HOL constants or with the usual variable names carry a suffix
  (\<open>id\<close>, \<open>x\<close>, \<open>y\<close>, \<open>text\<close> of a layer are \<open>id_layer\<close>, \<open>x_layer\<close>, \<open>y_layer\<close>,
  \<open>text_layer\<close>).
\<close>

record TextShadow =
  color :: string
  blur :: real
  offsetX :: real
  offsetY :: real

record CustomFont =
  name_font :: string
  url_font :: string
  type_font :: string

text \<open>\<open>interface TextStyle\<close>: the template record that seeds every new layer.\<close>

record TextStyle =
  fontSize :: real
  fontFamily :: string
  fontWeight :: string
  fill :: string
  stroke :: string
  strokeWidth :: real
  textAlign :: string
  fontStyle :: string
  opacity :: real
  lineHeight :: real
  letterSpacing :: real
  textDecoration :: string
  textShadow :: TextShadow
  paragraphWidth :: real

text \<open>
  \<open>interface TextLayer\<close>: every field of \<open>TextStyle\<close> (the source spreads
  \<open>...textStyle\<close> into a new layer) and the fields of the layer itself.
\<close>

record TextLayer = TextStyle +
  id_layer :: string
  x_layer :: real
  y_layer :: real
  text_layer :: string
  rotation :: real
  scaleX :: real
  scaleY :: real
  locked :: bool
  isWarped :: bool
  warpPath :: string
  warpPathType :: string
  warpRadius :: real
  warpAngle :: real
  warpSpacing :: real
  showSpacingHints :: bool
  spacingHintColor :: string
  spacingHintOpacity :: real
  customFonts :: "CustomFont list"

text \<open>
  The React state of the component. \<open>selectedIds\<close> is a JavaScript \<open>Set\<close>, which keeps
  insertion order (\<open>Array.from(selectedIds)[0]\<close> is its oldest member): a list without
  repetitions, in insertion order.
\<close>

record editor =
  textLayers :: "TextLayer list"
  selectedIds :: "string list"
  textStyle :: TextStyle
  history :: "TextLayer list list"
  currentStep :: nat
  isUndoRedoAction :: bool

text \<open>
  What goes wrong without a state to return. An index read gives \<open>undefined\<close> and the
  value is installed as (\<open>SnapshotOutOfRange\<close>) or inside (\<open>UndefinedLayer\<close>) the layer
  collection, so that the next render dereferences it and throws; a handler throws on a
  property of \<open>undefined\<close> (\<open>TypeError\<close>); a coordinate becomes \<open>NaN\<close>
  (\<open>NotANumber\<close>).
\<close>

datatype error = SnapshotOutOfRange | UndefinedLayer | TypeError | NotANumber

definition defaultTextStyle :: TextStyle where
  "defaultTextStyle =
     \<lparr> fontSize = 40, fontFamily = ''Arial'', fontWeight = ''normal'', fill = ''#ff0000'',
       stroke = ''#000000'', strokeWidth = 2, textAlign = ''left'', fontStyle = ''normal'',
       opacity = 1, lineHeight = 12 / 10, letterSpacing = 0, textDecoration = ''none'',
       textShadow = \<lparr> color = ''#000000'', blur = 0, offsetX = 0, offsetY = 0 \<rparr>,
       paragraphWidth = 300 \<rparr>"

text \<open>The initial values of the \<open>useState\<close> hooks.\<close>

definition initial :: editor where
  "initial =
     \<lparr> textLayers = [], selectedIds = [], textStyle = defaultTextStyle,
       history = [[]], currentStep = 0, isUndoRedoAction = False \<rparr>"

section \<open>History manager\<close>

text \<open>
  \<open>addToHistory(newLayers)\<close>: consumed by the one-shot flag after an undo or redo;
  otherwise \<open>prev.slice(0, currentStep + 1)\<close>, \<open>push\<close>, \<open>shift\<close> when the length
  exceeds 20, and \<open>Math.min(prev + 1, 19)\<close> for the cursor.
\<close>

definition addToHistory :: "TextLayer list \<Rightarrow> editor \<Rightarrow> editor" where
  "addToHistory newLayers s =
     (if isUndoRedoAction s then s\<lparr> isUndoRedoAction := False \<rparr>
      else
        let newHistory = take (currentStep s + 1) (history s) @ [newLayers];
            newHistory' = (if length newHistory > 20 then tl newHistory else newHistory)
        in s\<lparr> history := newHistory', currentStep := min (currentStep s + 1) 19 \<rparr>)"

text \<open>
  \<open>undo\<close> and \<open>redo\<close>. \<open>history[newStep]\<close> is \<open>undefined\<close> when the index is past the
  end of the array; installing it as the layer collection makes the next render throw.
\<close>

definition undo :: "editor \<Rightarrow> error + editor" where
  "undo s =
     (if currentStep s > 0 then
        let newStep = currentStep s - 1 in
        if newStep < length (history s)
        then Inr (s\<lparr> isUndoRedoAction := True, currentStep := newStep,
                      textLayers := history s ! newStep, selectedIds := [] \<rparr>)
        else Inl SnapshotOutOfRange
      else Inr s)"

definition redo :: "editor \<Rightarrow> error + editor" where
  "redo s =
     (if currentStep s + 1 < length (history s) then
        let newStep = currentStep s + 1 in
        Inr (s\<lparr> isUndoRedoAction := True, currentStep := newStep,
                 textLayers := history s ! newStep, selectedIds := [] \<rparr>)
      else Inr s)"

text \<open>
  The tail shared by every mutating handler once its guard has passed:
  \<open>setTextLayers(newLayers); addToHistory(newLayers);\<close>
\<close>

definition commit :: "TextLayer list \<Rightarrow> editor \<Rightarrow> editor" where
  "commit newLayers s = addToHistory newLayers (s\<lparr> textLayers := newLayers \<rparr>)"

text \<open>The invariant of the data model: the cursor is a valid index and the cap holds.\<close>

definition history_ok :: "editor \<Rightarrow> bool" where
  "history_ok s \<longleftrightarrow> currentStep s < length (history s) \<and> length (history s) \<le> 20"

section \<open>Selection controller\<close>

definition hasSelection :: "editor \<Rightarrow> bool" where
  "hasSelection s \<longleftrightarrow> length (selectedIds s) > 0"

definition isSelected :: "editor \<Rightarrow> TextLayer \<Rightarrow> bool" where
  "isSelected s layer \<longleftrightarrow> id_layer layer \<in> set (selectedIds s)"

text \<open>\<open>textLayers.filter(layer => selectedIds.has(layer.id))\<close>\<close>

definition selectedLayers :: "editor \<Rightarrow> TextLayer list" where
  "selectedLayers s = filter (isSelected s) (textLayers s)"

definition addToSelection :: "string \<Rightarrow> editor \<Rightarrow> editor" where
  "addToSelection i s =
     s\<lparr> selectedIds := (if i \<in> set (selectedIds s) then selectedIds s else selectedIds s @ [i]) \<rparr>"

definition removeFromSelection :: "string \<Rightarrow> editor \<Rightarrow> editor" where
  "removeFromSelection i s = s\<lparr> selectedIds := filter (\<lambda>j. j \<noteq> i) (selectedIds s) \<rparr>"

definition selectLayer :: "string \<Rightarrow> bool \<Rightarrow> editor \<Rightarrow> editor" where
  "selectLayer i multiSelect s =
     (if multiSelect then
        (if i \<in> set (selectedIds s) then removeFromSelection i s else addToSelection i s)
      else s\<lparr> selectedIds := [i] \<rparr>)"

text \<open>
  The effect that runs after every render in which the layers or the selection changed:
  ids that no layer carries are dropped.
\<close>

definition reconcileSelection :: "editor \<Rightarrow> editor" where
  "reconcileSelection s =
     (let validIds = map id_layer (textLayers s);
          newSelectedIds = filter (\<lambda>i. i \<in> set validIds) (selectedIds s)
      in if length newSelectedIds \<noteq> length (selectedIds s)
         then s\<lparr> selectedIds := newSelectedIds \<rparr> else s)"

section \<open>Layer store\<close>

text \<open>The decimal text of a number, as a template literal prints \<open>Date.now()\<close>.\<close>

fun toString :: "nat \<Rightarrow> string" where
  "toString n =
     (if n < 10 then [''0123456789'' ! n]
      else toString (n div 10) @ [''0123456789'' ! (n mod 10)])"

declare toString.simps [simp del]

text \<open>\<open>Array.prototype.findIndex\<close>; \<open>None\<close> stands for the result \<open>-1\<close>.\<close>

fun findIndex :: "('a \<Rightarrow> bool) \<Rightarrow> 'a list \<Rightarrow> nat option" where
  "findIndex p [] = None"
| "findIndex p (a # as) =
     (if p a then Some 0 else map_option Suc (findIndex p as))"

text \<open>\<open>addText\<close>; the argument is the value of \<open>Date.now()\<close>.\<close>

definition addText :: "nat \<Rightarrow> editor \<Rightarrow> editor" where
  "addText now s =
     (let ts = textStyle s;
          newText =
            \<lparr> fontSize = fontSize ts, fontFamily = fontFamily ts, fontWeight = fontWeight ts,
              fill = fill ts, stroke = stroke ts, strokeWidth = strokeWidth ts,
              textAlign = textAlign ts, fontStyle = fontStyle ts, opacity = opacity ts,
              lineHeight = lineHeight ts, letterSpacing = letterSpacing ts,
              textDecoration = textDecoration ts, textShadow = textShadow ts,
              paragraphWidth = paragraphWidth ts,
              id_layer = ''text-'' @ toString now, x_layer = 50, y_layer = 50,
              text_layer = ''Double click to edit'',
              rotation = 0, scaleX = 1, scaleY = 1, locked = False,
              isWarped = False, warpPath = [], warpPathType = ''arc'',
              warpRadius = 100, warpAngle = 180, warpSpacing = 1,
              showSpacingHints = False, spacingHintColor = ''#3B82F6'',
              spacingHintOpacity = 6 / 10, customFonts = [] \<rparr>;
          newLayers = textLayers s @ [newText]
      in (commit newLayers s)\<lparr> selectedIds := [id_layer newText] \<rparr>)"

text \<open>
  \<open>updateTextStyle(property, value)\<close>: one constructor for each key of \<open>TextStyle\<close>
  that the controls pass with a value of the field's type. The patch goes to the
  selected layers and to the template for the next new layer.
\<close>

datatype style_patch =
    FontSize real | FontFamily string | FontWeight string | Fill string | Stroke string
  | StrokeWidth real | TextAlign string | FontStyle string | Opacity real
  | LineHeight real | LetterSpacing real | TextDecoration string | ParagraphWidth real

fun applyPatch :: "style_patch \<Rightarrow> 'a TextStyle_scheme \<Rightarrow> 'a TextStyle_scheme" where
  "applyPatch (FontSize v) r = r\<lparr> fontSize := v \<rparr>"
| "applyPatch (FontFamily v) r = r\<lparr> fontFamily := v \<rparr>"
| "applyPatch (FontWeight v) r = r\<lparr> fontWeight := v \<rparr>"
| "applyPatch (Fill v) r = r\<lparr> fill := v \<rparr>"
| "applyPatch (Stroke v) r = r\<lparr> stroke := v \<rparr>"
| "applyPatch (StrokeWidth v) r = r\<lparr> strokeWidth := v \<rparr>"
| "applyPatch (TextAlign v) r = r\<lparr> textAlign := v \<rparr>"
| "applyPatch (FontStyle v) r = r\<lparr> fontStyle := v \<rparr>"
| "applyPatch (Opacity v) r = r\<lparr> opacity := v \<rparr>"
| "applyPatch (LineHeight v) r = r\<lparr> lineHeight := v \<rparr>"
| "applyPatch (LetterSpacing v) r = r\<lparr> letterSpacing := v \<rparr>"
| "applyPatch (TextDecoration v) r = r\<lparr> textDecoration := v \<rparr>"
| "applyPatch (ParagraphWidth v) r = r\<lparr> paragraphWidth := v \<rparr>"

definition updateTextStyle :: "style_patch \<Rightarrow> editor \<Rightarrow> editor" where
  "updateTextStyle patch s =
     (let s' = (if hasSelection s
                then commit (map (\<lambda>layer. if isSelected s layer then applyPatch patch layer
                                            else layer) (textLayers s)) s
                else s)
      in s'\<lparr> textStyle := applyPatch patch (textStyle s') \<rparr>)"

definition deleteText :: "editor \<Rightarrow> editor" where
  "deleteText s =
     (if hasSelection s then
        (commit (filter (\<lambda>layer. \<not> isSelected s layer) (textLayers s)) s)\<lparr> selectedIds := [] \<rparr>
      else s)"

text \<open>
  The reorder handlers. Their guard \<open>hasSelection && selectedIds.size === 1\<close> is the
  pattern \<open>[selectedId]\<close>.
\<close>

definition moveLayerUp :: "editor \<Rightarrow> editor" where
  "moveLayerUp s =
     (case selectedIds s of
        [selectedId] \<Rightarrow>
          (case findIndex (\<lambda>layer. id_layer layer = selectedId) (textLayers s) of
             None \<Rightarrow> s
           | Some currentIndex \<Rightarrow>
               if currentIndex > 0 then
                 commit ((textLayers s)
                           [currentIndex := textLayers s ! (currentIndex - 1),
                            currentIndex - 1 := textLayers s ! currentIndex]) s
               else s)
      | _ \<Rightarrow> s)"

text \<open>
  \<open>moveLayerDown\<close> tests \<open>currentIndex < textLayers.length - 1\<close> only: with
  \<open>currentIndex = -1\<close> (no layer carries the selected id) and a non-empty collection the
  test passes, \<open>newLayers[-1]\<close> is \<open>undefined\<close> and is written to index 0.
\<close>

definition moveLayerDown :: "editor \<Rightarrow> error + editor" where
  "moveLayerDown s =
     (case selectedIds s of
        [selectedId] \<Rightarrow>
          (case findIndex (\<lambda>layer. id_layer layer = selectedId) (textLayers s) of
             None \<Rightarrow> if textLayers s \<noteq> [] then Inl UndefinedLayer else Inr s
           | Some currentIndex \<Rightarrow>
               if currentIndex + 1 < length (textLayers s) then
                 Inr (commit ((textLayers s)
                                [currentIndex := textLayers s ! (currentIndex + 1),
                                 currentIndex + 1 := textLayers s ! currentIndex]) s)
               else Inr s)
      | _ \<Rightarrow> Inr s)"

definition bringToFront :: "editor \<Rightarrow> editor" where
  "bringToFront s =
     (case selectedIds s of
        [selectedId] \<Rightarrow>
          (case find (\<lambda>layer. id_layer layer = selectedId) (textLayers s) of
             None \<Rightarrow> s
           | Some selectedLayer \<Rightarrow>
               let otherLayers = filter (\<lambda>layer. id_layer layer \<noteq> selectedId) (textLayers s)
               in commit (otherLayers @ [selectedLayer]) s)
      | _ \<Rightarrow> s)"

definition sendToBack :: "editor \<Rightarrow> editor" where
  "sendToBack s =
     (case selectedIds s of
        [selectedId] \<Rightarrow>
          (case find (\<lambda>layer. id_layer layer = selectedId) (textLayers s) of
             None \<Rightarrow> s
           | Some selectedLayer \<Rightarrow>
               let otherLayers = filter (\<lambda>layer. id_layer layer \<noteq> selectedId) (textLayers s)
               in commit (selectedLayer # otherLayers) s)
      | _ \<Rightarrow> s)"

definition toggleLock :: "editor \<Rightarrow> editor" where
  "toggleLock s =
     (if hasSelection s then
        (if length (selectedLayers s) > 0 then
           let allLocked = list_all locked (selectedLayers s);
               newLockState = \<not> allLocked
           in commit (map (\<lambda>layer. if isSelected s layer then layer\<lparr> locked := newLockState \<rparr>
                                     else layer) (textLayers s)) s
         else s)
      else s)"

text \<open>\<open>duplicateLayer\<close>; the argument is the value of \<open>Date.now()\<close>.\<close>

definition duplicateLayer :: "nat \<Rightarrow> editor \<Rightarrow> editor" where
  "duplicateLayer now s =
     (case selectedIds s of
        [selectedId] \<Rightarrow>
          (case find (\<lambda>layer. id_layer layer = selectedId) (textLayers s) of
             None \<Rightarrow> s
           | Some selectedLayer \<Rightarrow>
               let duplicatedLayer =
                     selectedLayer\<lparr> id_layer := ''text-'' @ toString now,
                                     x_layer := x_layer selectedLayer + 20,
                                     y_layer := y_layer selectedLayer + 20,
                                     locked := False \<rparr>;
                   newLayers = textLayers s @ [duplicatedLayer]
               in (commit newLayers s)\<lparr> selectedIds := [id_layer duplicatedLayer] \<rparr>)
      | _ \<Rightarrow> s)"

datatype warp_property = WarpRadius | WarpAngle | WarpSpacing

fun setWarpProperty :: "warp_property \<Rightarrow> real \<Rightarrow> TextLayer \<Rightarrow> TextLayer" where
  "setWarpProperty WarpRadius v layer = layer\<lparr> warpRadius := v \<rparr>"
| "setWarpProperty WarpAngle v layer = layer\<lparr> warpAngle := v \<rparr>"
| "setWarpProperty WarpSpacing v layer = layer\<lparr> warpSpacing := v \<rparr>"

definition updateWarpProperty :: "warp_property \<Rightarrow> real \<Rightarrow> editor \<Rightarrow> editor" where
  "updateWarpProperty property v s =
     (if hasSelection s then
        commit (map (\<lambda>layer. if isSelected s layer then setWarpProperty property v layer
                              else layer) (textLayers s)) s
      else s)"

definition toggleSpacingHints :: "editor \<Rightarrow> editor" where
  "toggleSpacingHints s =
     (if hasSelection s then
        commit (map (\<lambda>layer. if isSelected s layer
                              then layer\<lparr> showSpacingHints := \<not> showSpacingHints layer \<rparr>
                              else layer) (textLayers s)) s
      else s)"

definition updateSpacingHintColor :: "string \<Rightarrow> editor \<Rightarrow> editor" where
  "updateSpacingHintColor c s =
     (if hasSelection s then
        commit (map (\<lambda>layer. if isSelected s layer then layer\<lparr> spacingHintColor := c \<rparr>
                              else layer) (textLayers s)) s
      else s)"

definition updateSpacingHintOpacity :: "real \<Rightarrow> editor \<Rightarrow> editor" where
  "updateSpacingHintOpacity v s =
     (if hasSelection s then
        commit (map (\<lambda>layer. if isSelected s layer then layer\<lparr> spacingHintOpacity := v \<rparr>
                              else layer) (textLayers s)) s
      else s)"

text \<open>
  \<open>updateTextShadow(property, value)\<close>: the patch goes to the template and, with a
  selection, to the shadow of every selected layer.
\<close>

datatype shadow_patch =
  ShadowColor string | ShadowBlur real | ShadowOffsetX real | ShadowOffsetY real

fun applyShadowPatch :: "shadow_patch \<Rightarrow> TextShadow \<Rightarrow> TextShadow" where
  "applyShadowPatch (ShadowColor v) sh = sh\<lparr> color := v \<rparr>"
| "applyShadowPatch (ShadowBlur v) sh = sh\<lparr> blur := v \<rparr>"
| "applyShadowPatch (ShadowOffsetX v) sh = sh\<lparr> offsetX := v \<rparr>"
| "applyShadowPatch (ShadowOffsetY v) sh = sh\<lparr> offsetY := v \<rparr>"

definition updateTextShadow :: "shadow_patch \<Rightarrow> editor \<Rightarrow> editor" where
  "updateTextShadow patch s =
     (let s' = s\<lparr> textStyle :=
                    (textStyle s)\<lparr> textShadow :=
                                      applyShadowPatch patch (textShadow (textStyle s)) \<rparr> \<rparr>
      in if hasSelection s then
           commit (map (\<lambda>layer. if isSelected s layer
                                 then layer\<lparr> textShadow :=
                                               applyShadowPatch patch (textShadow layer) \<rparr>
                                 else layer) (textLayers s)) s'
         else s')"

text \<open>
  The six inline \<open>onChange\<close> handlers of the panel (text content, position X and Y,
  rotation, scale X and Y). Each has the body
  \<open>if (hasSelection) { newLayers = textLayers.map(...); setTextLayers(newLayers);
  addToHistory(newLayers) }\<close> with its own field; the argument is \<open>e.target.value\<close>,
  for the numeric fields after \<open>Number(...)\<close>.
\<close>

datatype layer_patch =
    TextContent string | PositionX real | PositionY real
  | Rotation real | ScaleX real | ScaleY real

fun applyLayerPatch :: "layer_patch \<Rightarrow> TextLayer \<Rightarrow> TextLayer" where
  "applyLayerPatch (TextContent v) layer = layer\<lparr> text_layer := v \<rparr>"
| "applyLayerPatch (PositionX v) layer = layer\<lparr> x_layer := v \<rparr>"
| "applyLayerPatch (PositionY v) layer = layer\<lparr> y_layer := v \<rparr>"
| "applyLayerPatch (Rotation v) layer = layer\<lparr> rotation := v \<rparr>"
| "applyLayerPatch (ScaleX v) layer = layer\<lparr> scaleX := v \<rparr>"
| "applyLayerPatch (ScaleY v) layer = layer\<lparr> scaleY := v \<rparr>"

definition changeLayerField :: "layer_patch \<Rightarrow> editor \<Rightarrow> editor" where
  "changeLayerField patch s =
     (if hasSelection s then
        commit (map (\<lambda>layer. if isSelected s layer then applyLayerPatch patch layer
                              else layer) (textLayers s)) s
      else s)"

section \<open>Warp path authoring\<close>

text \<open>
  The handlers build the SVG path in template literals. The parameter \<open>str\<close> stands for
  the conversion of a JavaScript number to its text, which is the language's and not
  the repository's; everything else of the literal is written out, line breaks and
  indentation included.
\<close>

definition newline :: string where
  "newline = [CHR 0x0A]"

definition indent :: "nat \<Rightarrow> string" where
  "indent n = replicate n (CHR '' '')"

text \<open>
  The arc path, written twice in the source with the same text: the default of
  \<open>toggleWarp\<close> and the case \<open>'arc'\<close> of \<open>setWarpPath\<close>.
\<close>

definition arcPath :: "(real \<Rightarrow> string) \<Rightarrow> real \<Rightarrow> real \<Rightarrow> real \<Rightarrow> real \<Rightarrow> string" where
  "arcPath str centerX centerY radius angle =
     (let angleRad = (angle * pi) / 180;
          startAngle = - angleRad / 2;
          endAngle = angleRad / 2;
          startX = centerX + radius * cos startAngle;
          startY = centerY + radius * sin startAngle;
          endX = centerX + radius * cos endAngle;
          endY = centerY + radius * sin endAngle;
          largeArcFlag = (if angle > 180 then 1 else 0)
      in concat [''M '', str startX, '' '', str startY, '' A '', str radius, '' '',
                 str radius, '' 0 '', str largeArcFlag, '' 1 '', str endX, '' '',
                 str endY])"

definition toggleWarp :: "(real \<Rightarrow> string) \<Rightarrow> editor \<Rightarrow> editor" where
  "toggleWarp str s =
     (case selectedIds s of
        [selectedId] \<Rightarrow>
          (case find (\<lambda>layer. id_layer layer = selectedId) (textLayers s) of
             None \<Rightarrow> s
           | Some selectedLayer \<Rightarrow>
               let isCurrentlyWarped = isWarped selectedLayer;
                   newLayer = selectedLayer\<lparr> isWarped := \<not> isCurrentlyWarped \<rparr>;
                   newLayer' =
                     (if \<not> isCurrentlyWarped \<and> warpPath selectedLayer = []
                      then newLayer\<lparr> warpPath :=
                                        arcPath str (x_layer selectedLayer) (y_layer selectedLayer)
                                          (warpRadius selectedLayer) (warpAngle selectedLayer) \<rparr>
                      else newLayer);
                   newLayers = map (\<lambda>layer. if id_layer layer = selectedId then newLayer'
                                             else layer) (textLayers s)
               in commit newLayers s)
      | _ \<Rightarrow> s)"

datatype path_type = Arc | Circle | Wave | Spiral | Zigzag | Heart | Star | Custom

fun pathTypeName :: "path_type \<Rightarrow> string" where
  "pathTypeName Arc = ''arc''"
| "pathTypeName Circle = ''circle''"
| "pathTypeName Wave = ''wave''"
| "pathTypeName Spiral = ''spiral''"
| "pathTypeName Zigzag = ''zigzag''"
| "pathTypeName Heart = ''heart''"
| "pathTypeName Star = ''star''"
| "pathTypeName Custom = ''custom''"

text \<open>
  The \<open>switch\<close> of \<open>setWarpPath\<close>: the path text for a path type, from the anchor, the
  radius and the angle of the selected layer. The loops of the source run over the
  index lists given here.
\<close>

definition warpPathFor ::
    "(real \<Rightarrow> string) \<Rightarrow> path_type \<Rightarrow> real \<Rightarrow> real \<Rightarrow> real \<Rightarrow> real \<Rightarrow> string" where
  "warpPathFor str pathType centerX centerY radius angle =
     (let angleRad = (angle * pi) / 180;
          startAngle = - angleRad / 2;
          endAngle = angleRad / 2;
          startX = centerX + radius * cos startAngle;
          startY = centerY + radius * sin startAngle;
          endX = centerX + radius * cos endAngle;
          endY = centerY + radius * sin endAngle
      in case pathType of
        Arc \<Rightarrow> arcPath str centerX centerY radius angle
      | Circle \<Rightarrow>
          concat [''M '', str (centerX - radius), '' '', str centerY, '' A '',
                  str radius, '' '', str radius, '' 0 1 1 '', str (centerX - radius),
                  '' '', str centerY]
      | Wave \<Rightarrow>
          let waveCount = nat (max 1 \<lfloor>angle / 60\<rfloor>);
              waveRadius = radius * (3 / 10)
          in concat [''M '', str startX, '' '', str startY] @
             concat (map (\<lambda>i.
                       let waveX = centerX + (real i - real waveCount / 2)
                                               * (radius * 2 / real waveCount);
                           waveY = centerY + (if i mod 2 = 0 then - waveRadius else waveRadius)
                       in concat ['' Q '', str waveX, '' '', str waveY, '' '',
                                  str (waveX + radius * 2 / real waveCount), '' '',
                                  str centerY])
                     [0..<waveCount])
      | Spiral \<Rightarrow>
          let spiralTurns = 3;
              spiralRadius = radius * (8 / 10)
          in concat [''M '', str centerX, '' '', str centerY] @
             concat (map (\<lambda>i.
                       let angle' = (real i * pi) / 180;
                           currentRadius = (spiralRadius * real i) / real (360 * spiralTurns);
                           x = centerX + currentRadius * cos angle';
                           y = centerY + currentRadius * sin angle'
                       in concat ['' L '', str x, '' '', str y])
                     (filter (\<lambda>i. i mod 10 = 0) [0..<360 * spiralTurns + 1]))
      | Zigzag \<Rightarrow>
          let zigzagCount = nat (max 2 \<lfloor>angle / 45\<rfloor>);
              zigzagHeight = radius * (4 / 10)
          in concat [''M '', str startX, '' '', str startY] @
             concat (map (\<lambda>i.
                       let progress = real i / real zigzagCount;
                           x = startX + progress * (endX - startX);
                           y = centerY + (if i mod 2 = 0 then zigzagHeight else - zigzagHeight)
                       in concat ['' L '', str x, '' '', str y])
                     [1..<zigzagCount + 1]) @
             concat ['' L '', str endX, '' '', str endY]
      | Heart \<Rightarrow>
          let heartScale = radius / 50
          in concat
               [''M '', str centerX, '' '', str (centerY - 20 * heartScale), '' '',
                newline, indent 20, ''C '', str (centerX - 30 * heartScale), '' '',
                str (centerY - 40 * heartScale), '' '', newline, indent 22,
                str (centerX - 50 * heartScale), '' '',
                str (centerY - 10 * heartScale), '' '', newline, indent 22,
                str (centerX - 50 * heartScale), '' '',
                str (centerY + 10 * heartScale), newline, indent 20, ''C '',
                str (centerX - 50 * heartScale), '' '',
                str (centerY + 30 * heartScale), '' '', newline, indent 22,
                str (centerX - 20 * heartScale), '' '',
                str (centerY + 50 * heartScale), '' '', newline, indent 22,
                str centerX, '' '', str (centerY + 30 * heartScale), newline,
                indent 20, ''C '', str (centerX + 20 * heartScale), '' '',
                str (centerY + 50 * heartScale), '' '', newline, indent 22,
                str (centerX + 50 * heartScale), '' '',
                str (centerY + 30 * heartScale), '' '', newline, indent 22,
                str (centerX + 50 * heartScale), '' '',
                str (centerY + 10 * heartScale), newline, indent 20, ''C '',
                str (centerX + 50 * heartScale), '' '',
                str (centerY - 10 * heartScale), '' '', newline, indent 22,
                str (centerX + 30 * heartScale), '' '',
                str (centerY - 40 * heartScale), '' '', newline, indent 22,
                str centerX, '' '', str (centerY - 20 * heartScale)]
      | Star \<Rightarrow>
          let starPoints = 5;
              outerRadius = radius;
              innerRadius = radius * (4 / 10)
          in concat (map (\<lambda>i.
                       let angle' = (real i * pi) / real starPoints;
                           currentRadius = (if i mod 2 = 0 then outerRadius else innerRadius);
                           x = centerX + currentRadius * cos angle';
                           y = centerY + currentRadius * sin angle'
                       in if i = 0 then concat [''M '', str x, '' '', str y]
                          else concat ['' L '', str x, '' '', str y])
                     [0..<starPoints * 2]) @
             '' Z''
      | Custom \<Rightarrow>
          concat [''M '', str startX, '' '', str startY, '' '', newline, indent 20,
                  ''C '', str (centerX - radius * (5 / 10)), '' '',
                  str (centerY - radius * (8 / 10)), '' '', newline, indent 22,
                  str (centerX + radius * (5 / 10)), '' '',
                  str (centerY + radius * (8 / 10)), '' '', newline, indent 22,
                  str endX, '' '', str endY])"

definition setWarpPath :: "(real \<Rightarrow> string) \<Rightarrow> path_type \<Rightarrow> editor \<Rightarrow> editor" where
  "setWarpPath str pathType s =
     (case selectedIds s of
        [selectedId] \<Rightarrow>
          (case find (\<lambda>layer. id_layer layer = selectedId) (textLayers s) of
             None \<Rightarrow> s
           | Some selectedLayer \<Rightarrow>
               let path = warpPathFor str pathType (x_layer selectedLayer) (y_layer selectedLayer)
                            (warpRadius selectedLayer) (warpAngle selectedLayer);
                   newLayers = map (\<lambda>layer. if id_layer layer = selectedId
                                             then layer\<lparr> warpPath := path,
                                                          warpPathType := pathTypeName pathType \<rparr>
                                             else layer) (textLayers s)
               in commit newLayers s)
      | _ \<Rightarrow> s)"

section \<open>Alignment\<close>

text \<open>
  \<open>alignLayersVertically\<close> gives every selected layer the mean \<open>y\<close> of the selected
  layers, \<open>alignLayersHorizontally\<close> the mean \<open>x\<close>. The guard reads the size of the
  selection, the divisor the number of layers found.
\<close>

definition alignLayersVertically :: "editor \<Rightarrow> editor" where
  "alignLayersVertically s =
     (if length (selectedIds s) \<ge> 2 then
        let centerY = foldl (\<lambda>sum layer. sum + y_layer layer) 0 (selectedLayers s)
                        / real (length (selectedLayers s))
        in commit (map (\<lambda>layer. if isSelected s layer then layer\<lparr> y_layer := centerY \<rparr>
                                 else layer) (textLayers s)) s
      else s)"

definition alignLayersHorizontally :: "editor \<Rightarrow> editor" where
  "alignLayersHorizontally s =
     (if length (selectedIds s) \<ge> 2 then
        let centerX = foldl (\<lambda>sum layer. sum + x_layer layer) 0 (selectedLayers s)
                        / real (length (selectedLayers s))
        in commit (map (\<lambda>layer. if isSelected s layer then layer\<lparr> x_layer := centerX \<rparr>
                                 else layer) (textLayers s)) s
      else s)"

section \<open>Distribution\<close>

text \<open>
  \<open>distributeLayersEvenly\<close> (along \<open>x\<close>) and \<open>distributeLayersVertically\<close> (along \<open>y\<close>).
  \<open>Array.prototype.sort\<close> is stable, as \<open>sort_key\<close> is. The guard reads the size of the
  selection; when no layer is found for it, \<open>lastLayer.x\<close> reads a property of
  \<open>undefined\<close> and the handler throws; when one layer is found, \<open>spacing\<close> is \<open>0 / 0\<close>
  and the coordinate written is \<open>NaN\<close>, which no real number stands for. \<open>findIndex\<close>
  gives \<open>-1\<close> when nothing is found.
\<close>

definition distributeLayersEvenly :: "editor \<Rightarrow> error + editor" where
  "distributeLayersEvenly s =
     (if length (selectedIds s) \<ge> 3 then
        let sortedLayers = sort_key x_layer (selectedLayers s)
        in if sortedLayers = [] then Inl TypeError
           else if length sortedLayers = 1 then Inl NotANumber
           else
             let firstLayer = sortedLayers ! 0;
                 lastLayer = sortedLayers ! (length sortedLayers - 1);
                 totalDistance = x_layer lastLayer - x_layer firstLayer;
                 spacing = totalDistance / real (length sortedLayers - 1);
                 newLayers =
                   map (\<lambda>layer.
                          if isSelected s layer then
                            let layerIndex =
                                  (case findIndex (\<lambda>l. id_layer l = id_layer layer) sortedLayers of
                                     None \<Rightarrow> - 1 | Some k \<Rightarrow> int k)
                            in layer\<lparr> x_layer := x_layer firstLayer
                                                     + (real_of_int layerIndex * spacing) \<rparr>
                          else layer) (textLayers s)
             in Inr (commit newLayers s)
      else Inr s)"

definition distributeLayersVertically :: "editor \<Rightarrow> error + editor" where
  "distributeLayersVertically s =
     (if length (selectedIds s) \<ge> 3 then
        let sortedLayers = sort_key y_layer (selectedLayers s)
        in if sortedLayers = [] then Inl TypeError
           else if length sortedLayers = 1 then Inl NotANumber
           else
             let firstLayer = sortedLayers ! 0;
                 lastLayer = sortedLayers ! (length sortedLayers - 1);
                 totalDistance = y_layer lastLayer - y_layer firstLayer;
                 spacing = totalDistance / real (length sortedLayers - 1);
                 newLayers =
                   map (\<lambda>layer.
                          if isSelected s layer then
                            let layerIndex =
                                  (case findIndex (\<lambda>l. id_layer l = id_layer layer) sortedLayers of
                                     None \<Rightarrow> - 1 | Some k \<Rightarrow> int k)
                            in layer\<lparr> y_layer := y_layer firstLayer
                                                     + (real_of_int layerIndex * spacing) \<rparr>
                          else layer) (textLayers s)
             in Inr (commit newLayers s)
      else Inr s)"

section \<open>Canvas events and reset\<close>

text \<open>
  The handlers of the canvas component. An element of the canvas is drawn for each
  layer; the events name it by the index \<open>i\<close> of its layer in the collection. A click or
  tap selects an unlocked layer: alone, or toggling its membership when the modifier key is
  held.
\<close>

definition canvasClick :: "nat \<Rightarrow> bool \<Rightarrow> editor \<Rightarrow> editor" where
  "canvasClick i isMultiSelect s =
     (if i < length (textLayers s) \<and> \<not> locked (textLayers s ! i)
      then selectLayer (id_layer (textLayers s ! i)) isMultiSelect s
      else s)"

text \<open>
  A layer is drawn as one draggable \<open>Text\<close> element, which carries \<open>onDragEnd\<close> and
  \<open>onTransformEnd\<close>, unless it is warped with a path; \<open>draggable\<close> is \<open>!locked\<close>. Both
  handlers write the values read from the node into every layer of the element's id
  with \<open>setTextLayers\<close> alone: \<open>addToHistory\<close> is not called.
\<close>

definition drawnAsText :: "TextLayer \<Rightarrow> bool" where
  "drawnAsText textLayer \<longleftrightarrow> \<not> (isWarped textLayer \<and> warpPath textLayer \<noteq> [])"

definition onDragEnd :: "nat \<Rightarrow> real \<Rightarrow> real \<Rightarrow> editor \<Rightarrow> editor" where
  "onDragEnd i nodeX nodeY s =
     (if i < length (textLayers s) \<and> drawnAsText (textLayers s ! i)
         \<and> \<not> locked (textLayers s ! i)
      then s\<lparr> textLayers :=
                 map (\<lambda>layer. if id_layer layer = id_layer (textLayers s ! i)
                               then layer\<lparr> x_layer := nodeX, y_layer := nodeY \<rparr>
                               else layer) (textLayers s) \<rparr>
      else s)"

text \<open>
  The transformer is attached to the elements of the selected layers when one of the
  selected layers is unlocked; \<open>onTransformEnd\<close> fires for an element it is attached to.
\<close>

definition onTransformEnd ::
    "nat \<Rightarrow> real \<Rightarrow> real \<Rightarrow> real \<Rightarrow> real \<Rightarrow> real \<Rightarrow> editor \<Rightarrow> editor" where
  "onTransformEnd i nodeX nodeY nodeRotation nodeScaleX nodeScaleY s =
     (if i < length (textLayers s) \<and> drawnAsText (textLayers s ! i)
         \<and> isSelected s (textLayers s ! i)
         \<and> list_ex (\<lambda>layer. \<not> locked layer) (selectedLayers s)
      then s\<lparr> textLayers :=
                 map (\<lambda>layer. if id_layer layer = id_layer (textLayers s ! i)
                               then layer\<lparr> x_layer := nodeX, y_layer := nodeY,
                                            rotation := nodeRotation, scaleX := nodeScaleX,
                                            scaleY := nodeScaleY \<rparr>
                               else layer) (textLayers s) \<rparr>
      else s)"

text \<open>
  \<open>resetDesign\<close>: every piece of state back to its initial value (the stored record is
  removed too).
\<close>

definition resetDesign :: "editor \<Rightarrow> editor" where
  "resetDesign s =
     s\<lparr> textLayers := [], selectedIds := [], textStyle := defaultTextStyle,
        history := [[]], currentStep := 0, isUndoRedoAction := False \<rparr>"

section \<open>Operations and their sequences\<close>

text \<open>
  One constructor for each handler that changes the layers or the selection.
  \<open>recorded op s\<close> says that the handler reaches
  \<open>setTextLayers(newLayers); addToHistory(newLayers)\<close> in state \<open>s\<close>: it is a handler
  that records and its guard holds. The selection handlers, the canvas handlers and
  \<open>resetDesign\<close> never call \<open>addToHistory\<close>.
\<close>

datatype operation =
    AddText nat
  | UpdateTextStyle style_patch
  | UpdateTextShadow shadow_patch
  | ChangeLayerField layer_patch
  | DeleteText
  | MoveLayerUp
  | MoveLayerDown
  | BringToFront
  | SendToBack
  | ToggleLock
  | DuplicateLayer nat
  | ToggleWarp "real \<Rightarrow> string"
  | UpdateWarpProperty warp_property real
  | SetWarpPath "real \<Rightarrow> string" path_type
  | ToggleSpacingHints
  | UpdateSpacingHintColor string
  | UpdateSpacingHintOpacity real
  | DistributeLayersEvenly
  | AlignLayersVertically
  | AlignLayersHorizontally
  | DistributeLayersVertically
  | SelectLayer string
  | CanvasClick nat bool
  | DragEnd nat real real
  | TransformEnd nat real real real real real
  | ResetDesign

fun applyOperation :: "operation \<Rightarrow> editor \<Rightarrow> error + editor" where
  "applyOperation (AddText now) s = Inr (addText now s)"
| "applyOperation (UpdateTextStyle patch) s = Inr (updateTextStyle patch s)"
| "applyOperation (UpdateTextShadow patch) s = Inr (updateTextShadow patch s)"
| "applyOperation (ChangeLayerField patch) s = Inr (changeLayerField patch s)"
| "applyOperation DeleteText s = Inr (deleteText s)"
| "applyOperation MoveLayerUp s = Inr (moveLayerUp s)"
| "applyOperation MoveLayerDown s = moveLayerDown s"
| "applyOperation BringToFront s = Inr (bringToFront s)"
| "applyOperation SendToBack s = Inr (sendToBack s)"
| "applyOperation ToggleLock s = Inr (toggleLock s)"
| "applyOperation (DuplicateLayer now) s = Inr (duplicateLayer now s)"
| "applyOperation (ToggleWarp str) s = Inr (toggleWarp str s)"
| "applyOperation (UpdateWarpProperty property v) s = Inr (updateWarpProperty property v s)"
| "applyOperation (SetWarpPath str pathType) s = Inr (setWarpPath str pathType s)"
| "applyOperation ToggleSpacingHints s = Inr (toggleSpacingHints s)"
| "applyOperation (UpdateSpacingHintColor c) s = Inr (updateSpacingHintColor c s)"
| "applyOperation (UpdateSpacingHintOpacity v) s = Inr (updateSpacingHintOpacity v s)"
| "applyOperation DistributeLayersEvenly s = distributeLayersEvenly s"
| "applyOperation AlignLayersVertically s = Inr (alignLayersVertically s)"
| "applyOperation AlignLayersHorizontally s = Inr (alignLayersHorizontally s)"
| "applyOperation DistributeLayersVertically s = distributeLayersVertically s"
| "applyOperation (SelectLayer i) s = Inr (selectLayer i False s)"
| "applyOperation (CanvasClick i isMultiSelect) s = Inr (canvasClick i isMultiSelect s)"
| "applyOperation (DragEnd i nodeX nodeY) s = Inr (onDragEnd i nodeX nodeY s)"
| "applyOperation (TransformEnd i nodeX nodeY nodeRotation nodeScaleX nodeScaleY) s =
     Inr (onTransformEnd i nodeX nodeY nodeRotation nodeScaleX nodeScaleY s)"
| "applyOperation ResetDesign s = Inr (resetDesign s)"

definition singleFound :: "editor \<Rightarrow> nat option" where
  "singleFound s =
     (case selectedIds s of
        [selectedId] \<Rightarrow> findIndex (\<lambda>layer. id_layer layer = selectedId) (textLayers s)
      | _ \<Rightarrow> None)"

fun recorded :: "operation \<Rightarrow> editor \<Rightarrow> bool" where
  "recorded (AddText now) s \<longleftrightarrow> True"
| "recorded (UpdateTextStyle patch) s \<longleftrightarrow> hasSelection s"
| "recorded (UpdateTextShadow patch) s \<longleftrightarrow> hasSelection s"
| "recorded (ChangeLayerField patch) s \<longleftrightarrow> hasSelection s"
| "recorded DeleteText s \<longleftrightarrow> hasSelection s"
| "recorded MoveLayerUp s \<longleftrightarrow>
     (case singleFound s of None \<Rightarrow> False | Some currentIndex \<Rightarrow> currentIndex > 0)"
| "recorded MoveLayerDown s \<longleftrightarrow>
     (case singleFound s of None \<Rightarrow> False
      | Some currentIndex \<Rightarrow> currentIndex + 1 < length (textLayers s))"
| "recorded BringToFront s \<longleftrightarrow> singleFound s \<noteq> None"
| "recorded SendToBack s \<longleftrightarrow> singleFound s \<noteq> None"
| "recorded ToggleLock s \<longleftrightarrow> hasSelection s \<and> length (selectedLayers s) > 0"
| "recorded (DuplicateLayer now) s \<longleftrightarrow> singleFound s \<noteq> None"
| "recorded (ToggleWarp str) s \<longleftrightarrow> singleFound s \<noteq> None"
| "recorded (UpdateWarpProperty property v) s \<longleftrightarrow> hasSelection s"
| "recorded (SetWarpPath str pathType) s \<longleftrightarrow> singleFound s \<noteq> None"
| "recorded ToggleSpacingHints s \<longleftrightarrow> hasSelection s"
| "recorded (UpdateSpacingHintColor c) s \<longleftrightarrow> hasSelection s"
| "recorded (UpdateSpacingHintOpacity v) s \<longleftrightarrow> hasSelection s"
| "recorded DistributeLayersEvenly s \<longleftrightarrow>
     length (selectedIds s) \<ge> 3 \<and> length (selectedLayers s) \<ge> 2"
| "recorded AlignLayersVertically s \<longleftrightarrow> length (selectedIds s) \<ge> 2"
| "recorded AlignLayersHorizontally s \<longleftrightarrow> length (selectedIds s) \<ge> 2"
| "recorded DistributeLayersVertically s \<longleftrightarrow>
     length (selectedIds s) \<ge> 3 \<and> length (selectedLayers s) \<ge> 2"
| "recorded (SelectLayer i) s \<longleftrightarrow> False"
| "recorded (CanvasClick i isMultiSelect) s \<longleftrightarrow> False"
| "recorded (DragEnd i nodeX nodeY) s \<longleftrightarrow> False"
| "recorded (TransformEnd i nodeX nodeY nodeRotation nodeScaleX nodeScaleY) s \<longleftrightarrow> False"
| "recorded ResetDesign s \<longleftrightarrow> False"

text \<open>The handlers that replace the layer collection without recording it.\<close>

fun unrecordedChange :: "operation \<Rightarrow> bool" where
  "unrecordedChange (DragEnd i nodeX nodeY) \<longleftrightarrow> True"
| "unrecordedChange (TransformEnd i nodeX nodeY nodeRotation nodeScaleX nodeScaleY) \<longleftrightarrow> True"
| "unrecordedChange ResetDesign \<longleftrightarrow> True"
| "unrecordedChange op \<longleftrightarrow> False"

text \<open>
  A user action followed by the render it causes: the handler, then the effect that
  prunes the selection.
\<close>

definition step :: "operation \<Rightarrow> editor \<Rightarrow> error + editor" where
  "step op s =
     (case applyOperation op s of Inl e \<Rightarrow> Inl e | Inr s' \<Rightarrow> Inr (reconcileSelection s'))"




section \<open>Persistence adapter\<close>

record TextEditorProps =
  imageUrl :: string
  imageWidth :: nat
  imageHeight :: nat

text \<open>
  The object that \<open>JSON.parse\<close> returns. A key that is absent or \<open>null\<close> reads as a
  falsy value in the source; it is \<open>None\<close> here. \<open>JSON.stringify\<close> followed by
  \<open>JSON.parse\<close> gives back the same numbers, strings, booleans and arrays, so the stored
  text is represented by the object it parses to.
\<close>

record SaveData =
  textLayers_saved :: "TextLayer list option"
  history_saved :: "TextLayer list list option"
  currentStep_saved :: "nat option"
  imageUrl_saved :: "string option"
  imageWidth_saved :: "nat option"
  imageHeight_saved :: "nat option"
  timestamp_saved :: "string option"
  version_saved :: "string option"

text \<open>
  The item under the key \<open>imageTextComposer\<close>: text that parses to an object, or text
  on which \<open>JSON.parse\<close> throws.
\<close>

datatype stored_item = Parsed SaveData | Malformed

type_synonym localStorage = "stored_item option"

text \<open>
  \<open>saveToLocalStorage(data)\<close>, called by \<open>triggerAutosave\<close> and \<open>manualSave\<close> with the
  current layers, history, cursor and image identity. \<open>timestamp\<close> is
  \<open>new Date().toISOString()\<close>; \<open>quotaExceeded\<close> says that \<open>setItem\<close> throws, which the
  handler catches and logs.
\<close>

definition saveToLocalStorage ::
    "string \<Rightarrow> bool \<Rightarrow> TextEditorProps \<Rightarrow> editor \<Rightarrow> localStorage \<Rightarrow> localStorage" where
  "saveToLocalStorage timestamp quotaExceeded props s storage =
     (let saveData =
            \<lparr> textLayers_saved = Some (textLayers s), history_saved = Some (history s),
              currentStep_saved = Some (currentStep s), imageUrl_saved = Some (imageUrl props),
              imageWidth_saved = Some (imageWidth props),
              imageHeight_saved = Some (imageHeight props),
              timestamp_saved = Some timestamp, version_saved = Some ''1.0'' \<rparr>
      in if quotaExceeded then storage else Some (Parsed saveData))"

text \<open>
  \<open>loadFromLocalStorage()\<close>: the returned flag, the state and the storage afterwards.
  The only test on the parsed object is the image identity; \<open>parsed.version\<close> is never
  read. The display value \<open>lastSaved\<close>, which both functions set, is not part of the
  state modelled here.
\<close>

definition loadFromLocalStorage ::
    "TextEditorProps \<Rightarrow> localStorage \<Rightarrow> editor \<Rightarrow> bool \<times> editor \<times> localStorage" where
  "loadFromLocalStorage props storage s =
     (case storage of
        None \<Rightarrow> (False, s, storage)
      | Some Malformed \<Rightarrow> (False, s, None)
      | Some (Parsed parsed) \<Rightarrow>
          if imageUrl_saved parsed = Some (imageUrl props) \<and>
             imageWidth_saved parsed = Some (imageWidth props) \<and>
             imageHeight_saved parsed = Some (imageHeight props)
          then (True,
                s\<lparr> textLayers := (case textLayers_saved parsed of None \<Rightarrow> [] | Some ls \<Rightarrow> ls),
                   history := (case history_saved parsed of None \<Rightarrow> [[]] | Some h \<Rightarrow> h),
                   currentStep := (case currentStep_saved parsed of None \<Rightarrow> 0 | Some n \<Rightarrow> n) \<rparr>,
                storage)
          else (False, s, None))"

section \<open>Geometry: characters along a warp path\<close>

text \<open>\<open>Math.atan2(y, x)\<close> and the remainder \<open>a % b\<close> of JavaScript, on real numbers.\<close>

definition atan2 :: "real \<Rightarrow> real \<Rightarrow> real" where
  "atan2 b a =
     (if a > 0 then arctan (b / a)
      else if a < 0 \<and> b \<ge> 0 then arctan (b / a) + pi
      else if a < 0 \<and> b < 0 then arctan (b / a) - pi
      else if b > 0 then pi / 2
      else if b < 0 then - pi / 2
      else 0)"

definition trunc :: "real \<Rightarrow> int" where
  "trunc r = (if r \<ge> 0 then \<lfloor>r\<rfloor> else \<lceil>r\<rceil>)"

definition jsRem :: "real \<Rightarrow> real \<Rightarrow> real" where
  "jsRem a b = a - b * of_int (trunc (a / b))"

text \<open>
  The arc formula, shared by the cases \<open>'arc'\<close>, \<open>'custom'\<close> and \<open>default\<close> of the switch:
  the point at \<open>currentAngle = -angleRad / 2 + progress * angleRad\<close> on the circle of the
  given radius round the anchor, and the rotation \<open>currentAngle\<close> in degrees plus 90.
\<close>

definition arcPosition :: "real \<Rightarrow> real \<Rightarrow> real \<Rightarrow> real \<Rightarrow> real \<Rightarrow> real \<times> real \<times> real" where
  "arcPosition centerX centerY radius angle progress =
     (let angleRad = (angle * pi) / 180;
          currentAngle = - angleRad / 2 + (progress * angleRad)
      in (centerX + radius * cos currentAngle,
          centerY + radius * sin currentAngle,
          (currentAngle * 180) / pi + 90))"

text \<open>
  \<open>getPositionAndRotation(index, totalChars)\<close> inside \<open>renderWarpedText(textLayer)\<close>:
  the triple \<open>(x, y, rotation)\<close>.
\<close>

definition getPositionAndRotation :: "TextLayer \<Rightarrow> nat \<Rightarrow> nat \<Rightarrow> real \<times> real \<times> real" where
  "getPositionAndRotation textLayer index totalChars =
     (let centerX = x_layer textLayer;
          centerY = y_layer textLayer;
          radius = warpRadius textLayer;
          angle = warpAngle textLayer;
          progress = real index / real (max (totalChars - 1) 1);
          pathType = (if warpPathType textLayer = [] then ''arc'' else warpPathType textLayer)
      in
      if pathType = ''arc'' then arcPosition centerX centerY radius angle progress
      else if pathType = ''circle'' then
        let circleAngle = progress * 2 * pi
        in (centerX + radius * cos circleAngle,
            centerY + radius * sin circleAngle,
            (circleAngle * 180) / pi + 90)
      else if pathType = ''wave'' then
        let waveCount = real_of_int (max 1 \<lfloor>angle / 60\<rfloor>);
            waveProgress = progress * waveCount;
            waveIndex = real_of_int \<lfloor>waveProgress\<rfloor>;
            waveFraction = waveProgress - waveIndex;
            waveX = centerX + (waveIndex - waveCount / 2) * (radius * 2 / waveCount);
            nextWaveX = centerX + (waveIndex + 1 - waveCount / 2) * (radius * 2 / waveCount);
            waveRadius = radius * (3 / 10)
        in (waveX + waveFraction * (nextWaveX - waveX),
            centerY + sin (waveFraction * pi) * waveRadius,
            cos (waveFraction * pi) * 45)
      else if pathType = ''spiral'' then
        let spiralTurns = 3;
            spiralProgress = progress * spiralTurns * 2 * pi;
            spiralRadius = radius * (8 / 10) * progress
        in (centerX + spiralRadius * cos spiralProgress,
            centerY + spiralRadius * sin spiralProgress,
            (spiralProgress * 180) / pi + 90)
      else if pathType = ''zigzag'' then
        let zigzagCount = real_of_int (max 2 \<lfloor>angle / 45\<rfloor>);
            zigzagProgress = progress * zigzagCount;
            zigzagIndex = \<lfloor>zigzagProgress\<rfloor>;
            zigzagFraction = zigzagProgress - real_of_int zigzagIndex;
            startX = centerX - radius;
            endX = centerX + radius;
            zigzagHeight = radius * (4 / 10)
        in (startX + progress * (endX - startX),
            centerY + (if zigzagIndex mod 2 = 0 then - zigzagHeight else zigzagHeight)
                        * (1 - zigzagFraction),
            0)
      else if pathType = ''heart'' then
        let heartAngle = progress * 2 * pi;
            heartScale = radius / 50;
            heartX = 16 * (sin heartAngle) ^ 3;
            heartY = - (13 * cos heartAngle - 5 * cos (2 * heartAngle)
                         - 2 * cos (3 * heartAngle) - cos (4 * heartAngle))
        in (centerX + heartX * heartScale,
            centerY + heartY * heartScale,
            atan2 (cos heartAngle) (- sin heartAngle) * 180 / pi)
      else if pathType = ''star'' then
        let starPoints = 5;
            starAngle = progress * 2 * pi;
            starIndex = \<lfloor>starAngle / (2 * pi / starPoints)\<rfloor>;
            starFraction = jsRem starAngle (2 * pi / starPoints) / (2 * pi / starPoints);
            outerRadius = radius;
            innerRadius = radius * (4 / 10);
            currentRadius = (if starIndex mod 2 = 0 then outerRadius else innerRadius);
            nextRadius = (if starIndex mod 2 = 0 then innerRadius else outerRadius);
            angle1 = real_of_int starIndex * (2 * pi / starPoints);
            angle2 = real_of_int (starIndex + 1) * (2 * pi / starPoints);
            interpolatedRadius = currentRadius + starFraction * (nextRadius - currentRadius);
            interpolatedAngle = angle1 + starFraction * (angle2 - angle1)
        in (centerX + interpolatedRadius * cos interpolatedAngle,
            centerY + interpolatedRadius * sin interpolatedAngle,
            (interpolatedAngle * 180) / pi + 90)
      else arcPosition centerX centerY radius angle progress)"

text \<open>
  \<open>renderWarpedText\<close>: nothing for a layer that is not warped or has no path, otherwise
  one placed character for each character of the text.
\<close>

definition renderWarpedText :: "TextLayer \<Rightarrow> (char \<times> real \<times> real \<times> real) list option" where
  "renderWarpedText textLayer =
     (if \<not> isWarped textLayer \<or> warpPath textLayer = [] then None
      else
        let chars = text_layer textLayer
        in Some (map (\<lambda>(index, c). (c, getPositionAndRotation textLayer index (length chars)))
                     (enumerate 0 chars)))"

section \<open>Notions used by the properties\<close>

text \<open>The part of the state that the history manager reads and writes.\<close>

definition histPart :: "editor \<Rightarrow> TextLayer list \<times> TextLayer list list \<times> nat \<times> bool" where
  "histPart s = (textLayers s, history s, currentStep s, isUndoRedoAction s)"

text \<open>A state whose history is full, with the cursor on the newest entry.\<close>

definition fullHistory :: editor where
  "fullHistory = initial\<lparr> history := replicate 20 [], currentStep := 19 \<rparr>"




text \<open>
  What it means that the next record is consumed in state \<open>s1\<close>: the tail of a handler
  installs its collection and leaves history and cursor as they are, and so does every
  operation that passes its guard, whatever is selected before it (\<open>undo\<close> and \<open>redo\<close>
  clear the selection, and selecting a layer records nothing).
\<close>

definition nextRecordConsumed :: "editor \<Rightarrow> bool" where
  "nextRecordConsumed s1 \<longleftrightarrow>
     (\<forall>newLayers.
        textLayers (commit newLayers s1) = newLayers \<and>
        history (commit newLayers s1) = history s1 \<and>
        currentStep (commit newLayers s1) = currentStep s1 \<and>
        \<not> isUndoRedoAction (commit newLayers s1)) \<and>
     (\<forall>sel op s2.
        recorded op (s1\<lparr> selectedIds := sel \<rparr>) \<and>
        applyOperation op (s1\<lparr> selectedIds := sel \<rparr>) = Inr s2 \<longrightarrow>
          history s2 = history s1 \<and> currentStep s2 = currentStep s1 \<and>
          \<not> isUndoRedoAction s2)"

text \<open>Example states and sequences.\<close>

definition midHistory :: editor where
  "midHistory = initial\<lparr> history := [[], [], []], currentStep := 1 \<rparr>"






text \<open>A layer with the default style, for the examples.\<close>

definition exampleLayer :: "string \<Rightarrow> real \<Rightarrow> real \<Rightarrow> bool \<Rightarrow> TextLayer" where
  "exampleLayer i a b l =
     \<lparr> fontSize = 40, fontFamily = ''Arial'', fontWeight = ''normal'', fill = ''#ff0000'',
       stroke = ''#000000'', strokeWidth = 2, textAlign = ''left'', fontStyle = ''normal'',
       opacity = 1, lineHeight = 12 / 10, letterSpacing = 0, textDecoration = ''none'',
       textShadow = \<lparr> color = ''#000000'', blur = 0, offsetX = 0, offsetY = 0 \<rparr>,
       paragraphWidth = 300,
       id_layer = i, x_layer = a, y_layer = b, text_layer = ''abc'',
       rotation = 0, scaleX = 1, scaleY = 1, locked = l,
       isWarped = False, warpPath = [], warpPathType = ''arc'',
       warpRadius = 100, warpAngle = 180, warpSpacing = 1,
       showSpacingHints = False, spacingHintColor = ''#3B82F6'',
       spacingHintOpacity = 6 / 10, customFonts = [] \<rparr>"

text \<open>Three layers, the first locked; the first two are selected.\<close>

definition lockState :: editor where
  "lockState =
     initial\<lparr> textLayers := [exampleLayer ''a'' 0 0 True, exampleLayer ''b'' 0 0 False,
                               exampleLayer ''c'' 0 0 False],
               selectedIds := [''a'', ''b''] \<rparr>"

text \<open>Two layers; the first is locked and is the only selected one.\<close>

definition lockedSelected :: editor where
  "lockedSelected =
     initial\<lparr> textLayers := [exampleLayer ''a'' 0 0 True, exampleLayer ''b'' 5 5 False],
               selectedIds := [''a''] \<rparr>"

text \<open>
  Four layers; the selected three have \<open>y\<close> 10, 20 and 30 and \<open>x\<close> 1, 2 and 6.
\<close>

definition alignState :: editor where
  "alignState =
     initial\<lparr> textLayers := [exampleLayer ''a'' 1 10 False, exampleLayer ''b'' 2 20 False,
                               exampleLayer ''d'' 7 7 False, exampleLayer ''c'' 6 30 False],
               selectedIds := [''a'', ''b'', ''c''] \<rparr>"

text \<open>The value of a decimal numeral, for reading \<open>toString\<close> back.\<close>

definition fromString :: "string \<Rightarrow> nat" where
  "fromString cs = foldl (\<lambda>acc c. 10 * acc + (of_char c - 48)) 0 cs"

text \<open>
  The point at \<open>deg\<close> degrees on the circle of radius \<open>r\<close> round \<open>(cx, cy)\<close>, with the
  rotation of a character placed there.
\<close>

definition placedAt :: "real \<Rightarrow> real \<Rightarrow> real \<Rightarrow> real \<Rightarrow> real \<times> real \<times> real" where
  "placedAt cx cy r deg = (cx + r * cos (deg * pi / 180), cy + r * sin (deg * pi / 180), deg + 90)"

text \<open>Two image identities and a stored record that names a later schema version.\<close>

definition imageA :: TextEditorProps where
  "imageA = \<lparr> imageUrl = ''blob:a'', imageWidth = 800, imageHeight = 600 \<rparr>"

definition imageB :: TextEditorProps where
  "imageB = \<lparr> imageUrl = ''blob:b'', imageWidth = 800, imageHeight = 600 \<rparr>"

definition laterVersion :: SaveData where
  "laterVersion =
     \<lparr> textLayers_saved = Some [exampleLayer ''a'' 0 0 False],
       history_saved = Some [[], [exampleLayer ''a'' 0 0 False]],
       currentStep_saved = Some 1, imageUrl_saved = Some ''blob:a'',
       imageWidth_saved = Some 800, imageHeight_saved = Some 600,
       timestamp_saved = Some ''2030-01-01T00:00:00.000Z'', version_saved = Some ''2.0'' \<rparr>"

text \<open>
  The states the editor reaches from its initial state by operations, \<open>undo\<close> and
  \<open>redo\<close>, each followed by its render.
\<close>

inductive reachable :: "editor \<Rightarrow> bool" where
  reachable_initial: "reachable initial"
| reachable_step: "reachable s \<Longrightarrow> step op s = Inr s' \<Longrightarrow> reachable s'"
| reachable_undo: "reachable s \<Longrightarrow> undo s = Inr s' \<Longrightarrow> reachable (reconcileSelection s')"
| reachable_redo: "reachable s \<Longrightarrow> redo s = Inr s' \<Longrightarrow> reachable (reconcileSelection s')"

section \<open>Properties of the history manager\<close>

lemma histPart_selectedIds [simp]: "histPart (s\<lparr> selectedIds := sel \<rparr>) = histPart s"
  by (simp add: histPart_def)

lemma histPart_textStyle [simp]: "histPart (s\<lparr> textStyle := ts \<rparr>) = histPart s"
  by (simp add: histPart_def)

lemma histPart_reconcile [simp]: "histPart (reconcileSelection s) = histPart s"
  by (simp add: reconcileSelection_def Let_def)

lemma textLayers_commit [simp]: "textLayers (commit newLayers s) = newLayers"
  by (simp add: commit_def addToHistory_def Let_def)

lemma addToHistory_swallowed:
  "isUndoRedoAction s \<Longrightarrow> addToHistory newLayers s = s\<lparr> isUndoRedoAction := False \<rparr>"
  by (simp add: addToHistory_def)

lemma addToHistory_below_cap:
  assumes "\<not> isUndoRedoAction s" and "currentStep s < length (history s)"
    and "currentStep s < 19"
  shows "history (addToHistory newLayers s) = take (currentStep s + 1) (history s) @ [newLayers]"
    and "currentStep (addToHistory newLayers s) = currentStep s + 1"
  using assms by (simp_all add: addToHistory_def Let_def)

lemma addToHistory_at_cap:
  assumes "\<not> isUndoRedoAction s" and "currentStep s < length (history s)"
    and "length (history s) \<le> 20" and "currentStep s \<ge> 19"
  shows "history (addToHistory newLayers s) = tl (history s) @ [newLayers]"
    and "currentStep (addToHistory newLayers s) = 19"
proof -
  from assms have c: "currentStep s = 19" and l: "length (history s) = 20" by auto
  then have "history s \<noteq> []" by auto
  with c l assms(1) show "history (addToHistory newLayers s) = tl (history s) @ [newLayers]"
    by (simp add: addToHistory_def Let_def)
  from c assms(1) show "currentStep (addToHistory newLayers s) = 19"
    by (simp add: addToHistory_def Let_def)
qed

text \<open>
  Claim C2. In a state that satisfies the invariant of the history (valid cursor, at most
  20 entries; it holds initially and is kept by every operation, \<open>undo\<close> and \<open>redo\<close>),
  recording a snapshot leaves at most 20 entries and a valid cursor. When the
  call is not consumed by the replay flag, the cursor addresses the newest entry, which is
  the snapshot; when the push would make 21 entries, the new history is the old one
  without its first entry, in the same order, followed by the snapshot; otherwise it is
  the entries up to the cursor followed by the snapshot.
\<close>

theorem addToHistory_bounded:
  assumes "history_ok s"
  shows "length (history (addToHistory newLayers s)) \<le> 20 \<and>
         currentStep (addToHistory newLayers s) < length (history (addToHistory newLayers s)) \<and>
         (\<not> isUndoRedoAction s \<longrightarrow>
            currentStep (addToHistory newLayers s) + 1 = length (history (addToHistory newLayers s)) \<and>
            history (addToHistory newLayers s) ! currentStep (addToHistory newLayers s) = newLayers \<and>
            (if length (take (currentStep s + 1) (history s) @ [newLayers]) > 20
             then history (addToHistory newLayers s) = tl (history s) @ [newLayers]
             else history (addToHistory newLayers s) =
                    take (currentStep s + 1) (history s) @ [newLayers]))"
proof (cases "isUndoRedoAction s")
  case True
  with assms show ?thesis by (simp add: addToHistory_swallowed history_ok_def)
next
  case False
  from assms have v: "currentStep s < length (history s)" and l: "length (history s) \<le> 20"
    by (simp_all add: history_ok_def)
  show ?thesis
  proof (cases "currentStep s < 19")
    case True
    with False v l show ?thesis
      by (simp add: addToHistory_below_cap nth_append)
  next
    case False
    then have "currentStep s \<ge> 19" by simp
    note at = addToHistory_at_cap [OF \<open>\<not> isUndoRedoAction s\<close> v l this]
    from v l \<open>currentStep s \<ge> 19\<close> have "length (history s) = 20" "currentStep s = 19" by auto
    with at \<open>\<not> isUndoRedoAction s\<close> show ?thesis by (simp add: nth_append)
  qed
qed

theorem addToHistory_bounded_witness:
  "history_ok fullHistory \<and>
   length (history (addToHistory [] fullHistory)) \<le> 20 \<and>
   history (addToHistory [] fullHistory) = tl (history fullHistory) @ [[]] \<and>
   currentStep (addToHistory [] fullHistory) + 1 = length (history (addToHistory [] fullHistory))"
proof -
  have h: "history_ok fullHistory"
    by (simp add: history_ok_def fullHistory_def initial_def)
  have f: "\<not> isUndoRedoAction fullHistory"
    by (simp add: fullHistory_def initial_def)
  have c: "length (take (currentStep fullHistory + 1) (history fullHistory) @ [[]]) > 20"
    by (simp add: fullHistory_def initial_def)
  from addToHistory_bounded [OF h, of "[]"] f c h show ?thesis
    by (auto simp: history_ok_def)
qed

section \<open>Every recorded operation ends in a commit\<close>

lemma singleFound_Some:
  "singleFound s = Some i \<Longrightarrow>
     \<exists>selectedId. selectedIds s = [selectedId] \<and>
        findIndex (\<lambda>layer. id_layer layer = selectedId) (textLayers s) = Some i"
  by (auto simp: singleFound_def split: list.splits)

lemma findIndex_find:
  "findIndex p xs = Some i \<Longrightarrow> i < length xs \<and> find p xs = Some (xs ! i)"
  by (induction xs arbitrary: i) (auto split: if_splits)

lemma findIndex_None: "findIndex p xs = None \<Longrightarrow> find p xs = None"
  by (induction xs) (auto split: if_splits)

lemma commit_textStyle:
  "commit newLayers (s\<lparr> textStyle := ts \<rparr>) = (commit newLayers s)\<lparr> textStyle := ts \<rparr>"
  by (simp add: commit_def addToHistory_def Let_def)

lemma sort_key_Nil_iff: "sort_key f xs = [] \<longleftrightarrow> xs = []"
  by (metis length_0_conv length_sort)

lemma distributeLayersEvenly_recorded:
  assumes "length (selectedIds s) \<ge> 3" and "length (selectedLayers s) \<ge> 2"
  shows "\<exists>newLayers. distributeLayersEvenly s = Inr (commit newLayers s)"
proof -
  from assms(2) have "selectedLayers s \<noteq> []" and "length (selectedLayers s) \<noteq> 1"
    by auto
  with assms(1) show ?thesis
    by (simp add: distributeLayersEvenly_def Let_def sort_key_Nil_iff) blast
qed

lemma distributeLayersEvenly_fails:
  assumes "length (selectedIds s) \<ge> 3" and "length (selectedLayers s) < 2"
  shows "isl (distributeLayersEvenly s)"
proof -
  from assms(2) have "length (selectedLayers s) = 0 \<or> length (selectedLayers s) = 1"
    by arith
  then show ?thesis
  proof
    assume "length (selectedLayers s) = 0"
    with assms(1) show ?thesis
      by (simp add: distributeLayersEvenly_def Let_def sort_key_Nil_iff)
  next
    assume "length (selectedLayers s) = 1"
    moreover from this have "selectedLayers s \<noteq> []" by auto
    ultimately show ?thesis using assms(1)
      by (simp add: distributeLayersEvenly_def Let_def sort_key_Nil_iff)
  qed
qed

lemma distributeLayersEvenly_quiet:
  assumes "distributeLayersEvenly s = Inr s'"
    and "\<not> (length (selectedIds s) \<ge> 3 \<and> length (selectedLayers s) \<ge> 2)"
  shows "s' = s"
proof (cases "length (selectedIds s) \<ge> 3")
  case True
  with assms(2) have "length (selectedLayers s) < 2" by simp
  from distributeLayersEvenly_fails [OF True this] assms(1) show ?thesis by simp
next
  case False
  with assms(1) show ?thesis by (simp add: distributeLayersEvenly_def)
qed

lemma distributeLayersVertically_recorded:
  assumes "length (selectedIds s) \<ge> 3" and "length (selectedLayers s) \<ge> 2"
  shows "\<exists>newLayers. distributeLayersVertically s = Inr (commit newLayers s)"
proof -
  from assms(2) have "selectedLayers s \<noteq> []" and "length (selectedLayers s) \<noteq> 1"
    by auto
  with assms(1) show ?thesis
    by (simp add: distributeLayersVertically_def Let_def sort_key_Nil_iff) blast
qed

lemma distributeLayersVertically_fails:
  assumes "length (selectedIds s) \<ge> 3" and "length (selectedLayers s) < 2"
  shows "isl (distributeLayersVertically s)"
proof -
  from assms(2) have "length (selectedLayers s) = 0 \<or> length (selectedLayers s) = 1"
    by arith
  then show ?thesis
  proof
    assume "length (selectedLayers s) = 0"
    with assms(1) show ?thesis
      by (simp add: distributeLayersVertically_def Let_def sort_key_Nil_iff)
  next
    assume "length (selectedLayers s) = 1"
    moreover from this have "selectedLayers s \<noteq> []" by auto
    ultimately show ?thesis using assms(1)
      by (simp add: distributeLayersVertically_def Let_def sort_key_Nil_iff)
  qed
qed

lemma distributeLayersVertically_quiet:
  assumes "distributeLayersVertically s = Inr s'"
    and "\<not> (length (selectedIds s) \<ge> 3 \<and> length (selectedLayers s) \<ge> 2)"
  shows "s' = s"
proof (cases "length (selectedIds s) \<ge> 3")
  case True
  with assms(2) have "length (selectedLayers s) < 2" by simp
  from distributeLayersVertically_fails [OF True this] assms(1) show ?thesis by simp
next
  case False
  with assms(1) show ?thesis by (simp add: distributeLayersVertically_def)
qed

lemma recorded_commit:
  assumes "recorded op s" and "applyOperation op s = Inr s'"
  shows "\<exists>newLayers. histPart s' = histPart (commit newLayers s)"
proof (cases op)
  case (UpdateTextShadow patch)
  with assms show ?thesis by (auto simp: updateTextShadow_def Let_def commit_textStyle)
next
  case (ChangeLayerField patch)
  with assms show ?thesis by (auto simp: changeLayerField_def)
next
  case (ToggleWarp str)
  with assms show ?thesis
    by (auto simp: toggleWarp_def Let_def dest!: singleFound_Some findIndex_find)
next
  case (SetWarpPath str pathType)
  with assms show ?thesis
    by (auto simp: setWarpPath_def Let_def dest!: singleFound_Some findIndex_find)
next
  case DistributeLayersEvenly
  with assms distributeLayersEvenly_recorded [of s] show ?thesis by auto
next
  case DistributeLayersVertically
  with assms distributeLayersVertically_recorded [of s] show ?thesis by auto
next
  case (SelectLayer i)
  with assms show ?thesis by simp
next
  case (CanvasClick i isMultiSelect)
  with assms show ?thesis by simp
next
  case (DragEnd i nodeX nodeY)
  with assms show ?thesis by simp
next
  case (TransformEnd i nodeX nodeY nodeRotation nodeScaleX nodeScaleY)
  with assms show ?thesis by simp
next
  case ResetDesign
  with assms show ?thesis by simp
next
  case (AddText now)
  with assms show ?thesis by (auto simp: addText_def Let_def)
next
  case (UpdateTextStyle patch)
  with assms show ?thesis by (auto simp: updateTextStyle_def Let_def)
next
  case DeleteText
  with assms show ?thesis by (auto simp: deleteText_def)
next
  case MoveLayerUp
  with assms show ?thesis
    by (auto simp: moveLayerUp_def singleFound_def split: list.splits option.splits)
next
  case MoveLayerDown
  with assms show ?thesis
    by (auto simp: moveLayerDown_def singleFound_def split: list.splits option.splits if_splits)
next
  case BringToFront
  with assms show ?thesis
    by (auto simp: bringToFront_def Let_def dest!: singleFound_Some findIndex_find)
next
  case SendToBack
  with assms show ?thesis
    by (auto simp: sendToBack_def Let_def dest!: singleFound_Some findIndex_find)
next
  case ToggleLock
  with assms show ?thesis by (auto simp: toggleLock_def Let_def)
next
  case (DuplicateLayer now)
  with assms show ?thesis
    by (auto simp: duplicateLayer_def Let_def dest!: singleFound_Some findIndex_find)
next
  case (UpdateWarpProperty property v)
  with assms show ?thesis by (auto simp: updateWarpProperty_def)
next
  case ToggleSpacingHints
  with assms show ?thesis by (auto simp: toggleSpacingHints_def)
next
  case (UpdateSpacingHintColor c)
  with assms show ?thesis by (auto simp: updateSpacingHintColor_def)
next
  case (UpdateSpacingHintOpacity v)
  with assms show ?thesis by (auto simp: updateSpacingHintOpacity_def)
next
  case AlignLayersVertically
  with assms show ?thesis by (auto simp: alignLayersVertically_def Let_def)
next
  case AlignLayersHorizontally
  with assms show ?thesis by (auto simp: alignLayersHorizontally_def Let_def)
qed

lemma recorded_no_error:
  "recorded op s \<Longrightarrow> \<exists>s'. applyOperation op s = Inr s'"
proof (cases op)
  case MoveLayerDown
  assume "recorded op s"
  with MoveLayerDown show ?thesis
    by (auto simp: moveLayerDown_def singleFound_def split: list.splits option.splits)
next
  case DistributeLayersEvenly
  assume "recorded op s"
  with DistributeLayersEvenly distributeLayersEvenly_recorded [of s] show ?thesis by auto
next
  case DistributeLayersVertically
  assume "recorded op s"
  with DistributeLayersVertically distributeLayersVertically_recorded [of s] show ?thesis
    by auto
qed simp_all

section \<open>The history invariant in every reachable state\<close>

text \<open>
  A recording handler whose guard fails and a selection handler leave layers, history,
  cursor and flag as they are; the handlers that change the layers without recording
  leave the history and the cursor, or reset them. With the lemma on recorded operations
  this makes \<open>history_ok\<close> an invariant of every state reached from the initial one.
\<close>

lemma unrecorded_unchanged:
  assumes "\<not> recorded op s" and "\<not> unrecordedChange op" and "applyOperation op s = Inr s'"
  shows "histPart s' = histPart s"
proof (cases op)
  case (UpdateTextShadow patch)
  with assms show ?thesis by (auto simp: updateTextShadow_def Let_def)
next
  case (ChangeLayerField patch)
  with assms show ?thesis by (auto simp: changeLayerField_def)
next
  case (ToggleWarp str)
  with assms show ?thesis
    by (auto simp: toggleWarp_def singleFound_def dest: findIndex_None
             split: list.splits option.splits)
next
  case (SetWarpPath str pathType)
  with assms show ?thesis
    by (auto simp: setWarpPath_def singleFound_def dest: findIndex_None
             split: list.splits option.splits)
next
  case DistributeLayersEvenly
  with assms distributeLayersEvenly_quiet [of s s'] show ?thesis by auto
next
  case DistributeLayersVertically
  with assms distributeLayersVertically_quiet [of s s'] show ?thesis by auto
next
  case (SelectLayer i)
  with assms show ?thesis
    by (auto simp: selectLayer_def addToSelection_def removeFromSelection_def)
next
  case (CanvasClick i isMultiSelect)
  with assms show ?thesis
    by (auto simp: canvasClick_def selectLayer_def addToSelection_def removeFromSelection_def)
next
  case (DragEnd i nodeX nodeY)
  with assms show ?thesis by simp
next
  case (TransformEnd i nodeX nodeY nodeRotation nodeScaleX nodeScaleY)
  with assms show ?thesis by simp
next
  case ResetDesign
  with assms show ?thesis by simp
next
  case (AddText now)
  with assms show ?thesis by simp
next
  case (UpdateTextStyle patch)
  with assms show ?thesis by (auto simp: updateTextStyle_def Let_def)
next
  case DeleteText
  with assms show ?thesis by (auto simp: deleteText_def)
next
  case MoveLayerUp
  with assms show ?thesis
    by (auto simp: moveLayerUp_def singleFound_def split: list.splits option.splits)
next
  case MoveLayerDown
  with assms show ?thesis
    by (auto simp: moveLayerDown_def singleFound_def split: list.splits option.splits if_splits)
next
  case BringToFront
  with assms show ?thesis
    by (auto simp: bringToFront_def singleFound_def dest: findIndex_None
             split: list.splits option.splits)
next
  case SendToBack
  with assms show ?thesis
    by (auto simp: sendToBack_def singleFound_def dest: findIndex_None
             split: list.splits option.splits)
next
  case ToggleLock
  with assms show ?thesis by (auto simp: toggleLock_def Let_def)
next
  case (DuplicateLayer now)
  with assms show ?thesis
    by (auto simp: duplicateLayer_def singleFound_def dest: findIndex_None
             split: list.splits option.splits)
next
  case (UpdateWarpProperty property v)
  with assms show ?thesis by (auto simp: updateWarpProperty_def)
next
  case ToggleSpacingHints
  with assms show ?thesis by (auto simp: toggleSpacingHints_def)
next
  case (UpdateSpacingHintColor c)
  with assms show ?thesis by (auto simp: updateSpacingHintColor_def)
next
  case (UpdateSpacingHintOpacity v)
  with assms show ?thesis by (auto simp: updateSpacingHintOpacity_def)
next
  case AlignLayersVertically
  with assms show ?thesis by (auto simp: alignLayersVertically_def Let_def)
next
  case AlignLayersHorizontally
  with assms show ?thesis by (auto simp: alignLayersHorizontally_def Let_def)
qed

lemma history_ok_histPart: "histPart s' = histPart s \<Longrightarrow> history_ok s' = history_ok s"
  by (simp add: histPart_def history_ok_def)

lemma history_ok_addToHistory:
  assumes "history_ok s"
  shows "history_ok (addToHistory newLayers s)"
proof (cases "isUndoRedoAction s")
  case True
  with assms show ?thesis by (simp add: addToHistory_swallowed history_ok_def)
next
  case False
  from assms have v: "currentStep s < length (history s)" and l: "length (history s) \<le> 20"
    by (simp_all add: history_ok_def)
  show ?thesis
  proof (cases "currentStep s < 19")
    case True
    with False v l show ?thesis
      by (simp add: addToHistory_below_cap history_ok_def)
  next
    case False
    then have "currentStep s \<ge> 19" by simp
    note at = addToHistory_at_cap [OF \<open>\<not> isUndoRedoAction s\<close> v l this]
    from v l \<open>currentStep s \<ge> 19\<close> have "length (history s) = 20" by auto
    with at show ?thesis by (simp add: history_ok_def)
  qed
qed

lemma history_ok_commit: "history_ok s \<Longrightarrow> history_ok (commit newLayers s)"
  unfolding commit_def by (rule history_ok_addToHistory) (simp add: history_ok_def)

lemma unrecordedChange_history_ok:
  assumes "unrecordedChange op" and "applyOperation op s = Inr s'" and "history_ok s"
  shows "history_ok s'"
  using assms
  by (cases op) (auto simp: onDragEnd_def onTransformEnd_def resetDesign_def history_ok_def)

lemma history_ok_step:
  assumes "history_ok s" and "step op s = Inr s'"
  shows "history_ok s'"
proof -
  from assms(2) obtain s1 where a: "applyOperation op s = Inr s1"
    and s': "s' = reconcileSelection s1"
    by (auto simp: step_def split: sum.splits)
  have "history_ok s1"
  proof (cases "recorded op s")
    case True
    with a obtain L where "histPart s1 = histPart (commit L s)"
      using recorded_commit by blast
    with assms(1) show ?thesis
      using history_ok_commit history_ok_histPart by blast
  next
    case False
    show ?thesis
    proof (cases "unrecordedChange op")
      case True
      from True a assms(1) show ?thesis by (rule unrecordedChange_history_ok)
    next
      case quiet: False
      from unrecorded_unchanged [OF False quiet a] have "histPart s1 = histPart s" .
      with assms(1) show ?thesis using history_ok_histPart by blast
    qed
  qed
  moreover have "histPart s' = histPart s1" using s' by simp
  ultimately show ?thesis using history_ok_histPart by blast
qed

lemma history_ok_undo:
  assumes "history_ok s" and "undo s = Inr s'"
  shows "history_ok s'"
  using assms by (auto simp: undo_def history_ok_def Let_def split: if_splits)

lemma history_ok_redo:
  assumes "history_ok s" and "redo s = Inr s'"
  shows "history_ok s'"
  using assms by (auto simp: redo_def history_ok_def Let_def split: if_splits)

lemma history_ok_reconcile: "history_ok (reconcileSelection s) = history_ok s"
  by (rule history_ok_histPart) simp

lemma reachable_history_ok: "reachable s \<Longrightarrow> history_ok s"
proof (induction rule: reachable.induct)
  case reachable_initial
  show ?case by (simp add: history_ok_def initial_def)
next
  case (reachable_step s op s')
  then show ?case using history_ok_step by blast
next
  case (reachable_undo s s')
  then show ?case using history_ok_undo history_ok_reconcile by blast
next
  case (reachable_redo s s')
  then show ?case using history_ok_redo history_ok_reconcile by blast
qed

section \<open>Handlers and the selection invariant\<close>

text \<open>
  After every render the selection names layers of the collection, each once; in such a
  state no handler fails.
\<close>

lemma selectedIds_commit [simp]: "selectedIds (commit newLayers s) = selectedIds s"
  by (simp add: commit_def addToHistory_def Let_def)









section \<open>Undo after a sequence of operations\<close>















section \<open>The replay flag\<close>

text \<open>
  Claim C10. An \<open>undo\<close> that moves the cursor (cursor above 0, previous snapshot present)
  and a \<open>redo\<close> that moves it (cursor below the last index) return a state in which the
  next record is consumed: the next handler installs its collection while history and
  cursor stay as they are, and the flag is cleared.
\<close>

theorem replay_flag_consumes_next_record:
  "(0 < currentStep s \<and> currentStep s - 1 < length (history s) \<longrightarrow>
      (\<exists>s1. undo s = Inr s1 \<and> isUndoRedoAction s1 \<and> nextRecordConsumed s1)) \<and>
   (currentStep s + 1 < length (history s) \<longrightarrow>
      (\<exists>s1. redo s = Inr s1 \<and> isUndoRedoAction s1 \<and> nextRecordConsumed s1))"
proof -
  have key: "nextRecordConsumed s1" if f: "isUndoRedoAction s1" for s1
    unfolding nextRecordConsumed_def
  proof (intro conjI allI impI)
    fix sel op s2
    assume r: "recorded op (s1\<lparr> selectedIds := sel \<rparr>) \<and>
               applyOperation op (s1\<lparr> selectedIds := sel \<rparr>) = Inr s2"
    then obtain L where "histPart s2 = histPart (commit L (s1\<lparr> selectedIds := sel \<rparr>))"
      using recorded_commit by blast
    with f have "histPart s2 = (L, history s1, currentStep s1, False)"
      by (simp add: histPart_def commit_def addToHistory_def)
    then show "history s2 = history s1" "currentStep s2 = currentStep s1"
      "\<not> isUndoRedoAction s2"
      by (simp_all add: histPart_def)
  qed (use f in \<open>simp_all add: commit_def addToHistory_def\<close>)
  show ?thesis
  proof (intro conjI impI)
    assume a: "0 < currentStep s \<and> currentStep s - 1 < length (history s)"
    let ?s1 = "s\<lparr> isUndoRedoAction := True, currentStep := currentStep s - 1,
                   textLayers := history s ! (currentStep s - 1), selectedIds := [] \<rparr>"
    from a have "undo s = Inr ?s1" by (simp add: undo_def Let_def)
    moreover have "isUndoRedoAction ?s1" by simp
    ultimately show "\<exists>s1. undo s = Inr s1 \<and> isUndoRedoAction s1 \<and> nextRecordConsumed s1"
      using key [of ?s1] by blast
  next
    assume a: "currentStep s + 1 < length (history s)"
    let ?s1 = "s\<lparr> isUndoRedoAction := True, currentStep := currentStep s + 1,
                   textLayers := history s ! (currentStep s + 1), selectedIds := [] \<rparr>"
    from a have "redo s = Inr ?s1" by (simp add: redo_def Let_def)
    moreover have "isUndoRedoAction ?s1" by simp
    ultimately show "\<exists>s1. redo s = Inr s1 \<and> isUndoRedoAction s1 \<and> nextRecordConsumed s1"
      using key [of ?s1] by blast
  qed
qed

theorem replay_flag_consumes_next_record_witness:
  "0 < currentStep midHistory \<and> currentStep midHistory - 1 < length (history midHistory) \<and>
   currentStep midHistory + 1 < length (history midHistory) \<and>
   (\<exists>s1. undo midHistory = Inr s1 \<and> isUndoRedoAction s1 \<and> nextRecordConsumed s1) \<and>
   (\<exists>s1. redo midHistory = Inr s1 \<and> isUndoRedoAction s1 \<and> nextRecordConsumed s1)"
proof -
  have 1: "0 < currentStep midHistory \<and> currentStep midHistory - 1 < length (history midHistory)"
    by (simp add: midHistory_def initial_def)
  have 2: "currentStep midHistory + 1 < length (history midHistory)"
    by (simp add: midHistory_def initial_def)
  from replay_flag_consumes_next_record [of midHistory] 1 2 show ?thesis by blast
qed

section \<open>Properties of the layer store\<close>

lemma digit_char: "d < 10 \<Longrightarrow> of_char (''0123456789'' ! d) = (48::nat) + d"
proof -
  assume "d < 10"
  then have "d \<in> {0,1,2,3,4,5,6,7,8,9}" by auto
  then show ?thesis by auto
qed

lemma fromString_snoc: "fromString (cs @ [c]) = 10 * fromString cs + (of_char c - 48)"
  by (simp add: fromString_def)

lemma fromString_toString: "fromString (toString n) = n"
proof (induction n rule: toString.induct)
  case (1 n)
  show ?case
  proof (cases "n < 10")
    case True
    then show ?thesis
      by (subst toString.simps) (simp add: fromString_def digit_char)
  next
    case False
    with 1 have ih: "fromString (toString (n div 10)) = n div 10" by simp
    have "n mod 10 < 10" by simp
    then have "of_char (''0123456789'' ! (n mod 10)) = (48::nat) + n mod 10"
      by (rule digit_char)
    with False ih show ?thesis
      by (subst toString.simps) (simp add: fromString_snoc)
  qed
qed

lemma toString_inj: "toString m = toString n \<Longrightarrow> m = n"
  by (metis fromString_toString)


text \<open>
  Claim C5, as amended. With exactly one id selected and a layer found for it,
  \<open>duplicateLayer\<close> appends one clone: the source with its position moved by 20 in \<open>x\<close>
  and in \<open>y\<close>, \<open>locked\<close> false and the id \<open>text-\<close> followed by the clock value; the clone
  is the only selected layer. The id differs from the id of every existing layer that was
  created at another clock value.
\<close>

theorem duplicateLayer_clone:
  assumes "selectedIds s = [selectedId]"
    and "find (\<lambda>layer. id_layer layer = selectedId) (textLayers s) = Some source"
  shows "textLayers (duplicateLayer now s) =
           textLayers s @ [source\<lparr> id_layer := ''text-'' @ toString now,
                                    x_layer := x_layer source + 20,
                                    y_layer := y_layer source + 20,
                                    locked := False \<rparr>] \<and>
         x_layer (last (textLayers (duplicateLayer now s))) = x_layer source + 20 \<and>
         y_layer (last (textLayers (duplicateLayer now s))) = y_layer source + 20 \<and>
         \<not> locked (last (textLayers (duplicateLayer now s))) \<and>
         id_layer (last (textLayers (duplicateLayer now s))) = ''text-'' @ toString now \<and>
         selectedIds (duplicateLayer now s) = [''text-'' @ toString now] \<and>
         (\<forall>layer \<in> set (textLayers s). \<forall>t. id_layer layer = ''text-'' @ toString t \<and> t \<noteq> now
            \<longrightarrow> id_layer (last (textLayers (duplicateLayer now s))) \<noteq> id_layer layer)"
proof -
  let ?clone = "source\<lparr> id_layer := ''text-'' @ toString now,
                        x_layer := x_layer source + 20,
                        y_layer := y_layer source + 20, locked := False \<rparr>"
  from assms have d: "duplicateLayer now s =
      (commit (textLayers s @ [?clone]) s)\<lparr> selectedIds := [''text-'' @ toString now] \<rparr>"
    by (simp add: duplicateLayer_def Let_def)
  then have t: "textLayers (duplicateLayer now s) = textLayers s @ [?clone]" by simp
  from d have sel: "selectedIds (duplicateLayer now s) = [''text-'' @ toString now]" by simp
  from t have l: "last (textLayers (duplicateLayer now s)) = ?clone" by simp
  have fresh: "\<forall>layer \<in> set (textLayers s). \<forall>t.
        id_layer layer = ''text-'' @ toString t \<and> t \<noteq> now \<longrightarrow> id_layer ?clone \<noteq> id_layer layer"
  proof (intro ballI allI impI)
    fix layer :: TextLayer and t
    assume a: "id_layer layer = ''text-'' @ toString t \<and> t \<noteq> now"
    then have "toString now \<noteq> toString t" using toString_inj [of now t] by auto
    with a show "id_layer ?clone \<noteq> id_layer layer" by simp
  qed
  have props: "x_layer ?clone = x_layer source + 20" "y_layer ?clone = y_layer source + 20"
    "\<not> locked ?clone" "id_layer ?clone = ''text-'' @ toString now"
    by simp_all
  from t sel fresh props show ?thesis unfolding l by blast
qed

theorem duplicateLayer_clone_witness:
  "selectedIds lockedSelected = [''a''] \<and>
   find (\<lambda>layer. id_layer layer = ''a'') (textLayers lockedSelected)
     = Some (exampleLayer ''a'' 0 0 True) \<and>
   length (textLayers (duplicateLayer 5 lockedSelected)) = 3 \<and>
   x_layer (last (textLayers (duplicateLayer 5 lockedSelected))) = 20 \<and>
   y_layer (last (textLayers (duplicateLayer 5 lockedSelected))) = 20 \<and>
   \<not> locked (last (textLayers (duplicateLayer 5 lockedSelected))) \<and>
   selectedIds (duplicateLayer 5 lockedSelected) = [''text-'' @ toString 5]"
proof -
  have 1: "selectedIds lockedSelected = [''a'']"
    by (simp add: lockedSelected_def initial_def)
  have 2: "find (\<lambda>layer. id_layer layer = ''a'') (textLayers lockedSelected)
             = Some (exampleLayer ''a'' 0 0 True)"
    by (simp add: lockedSelected_def initial_def exampleLayer_def)
  have 3: "length (textLayers lockedSelected) = 2"
    by (simp add: lockedSelected_def initial_def)
  have 4: "x_layer (exampleLayer ''a'' 0 0 True) = 0" "y_layer (exampleLayer ''a'' 0 0 True) = 0"
    by (simp_all add: exampleLayer_def)
  from duplicateLayer_clone [OF 1 2, of 5] 1 2 3 4 show ?thesis by simp
qed

text \<open>
  The claim as stated fails: the id is a function of the clock alone, and a duplicate made
  at the clock value at which its source was added carries the id of the source.
\<close>

theorem duplicateLayer_counterexample:
  "selectedIds (addText 7 initial) = [''text-7''] \<and>
   map id_layer (textLayers (addText 7 initial)) = [''text-7''] \<and>
   map id_layer (textLayers (duplicateLayer 7 (addText 7 initial))) = [''text-7'', ''text-7'']"
  by code_simp


text \<open>
  Claim C6. With a non-empty selection, \<open>toggleLock\<close> keeps the number and order of the
  layers; every selected layer changes in \<open>locked\<close> only, which becomes false when all
  selected layers were locked and true when one of them was not; every other layer is
  unchanged.
\<close>

theorem toggleLock_group:
  assumes "selectedIds s \<noteq> []"
  shows "length (textLayers (toggleLock s)) = length (textLayers s) \<and>
         (\<forall>i < length (textLayers s).
            (isSelected s (textLayers s ! i) \<longrightarrow>
               textLayers (toggleLock s) ! i =
                 (textLayers s ! i)\<lparr> locked := \<not> list_all locked (selectedLayers s) \<rparr>) \<and>
            (isSelected s (textLayers s ! i) \<and> list_all locked (selectedLayers s) \<longrightarrow>
               \<not> locked (textLayers (toggleLock s) ! i)) \<and>
            (isSelected s (textLayers s ! i) \<and> \<not> list_all locked (selectedLayers s) \<longrightarrow>
               locked (textLayers (toggleLock s) ! i)) \<and>
            (\<not> isSelected s (textLayers s ! i) \<longrightarrow>
               textLayers (toggleLock s) ! i = textLayers s ! i))"
proof (cases "selectedLayers s = []")
  case True
  then have none: "\<forall>layer \<in> set (textLayers s). \<not> isSelected s layer"
    by (simp add: selectedLayers_def filter_empty_conv)
  from True have "toggleLock s = s" by (simp add: toggleLock_def)
  with none show ?thesis by simp
next
  case False
  with assms have "textLayers (toggleLock s) =
      map (\<lambda>layer. if isSelected s layer
                    then layer\<lparr> locked := \<not> list_all locked (selectedLayers s) \<rparr>
                    else layer) (textLayers s)"
    by (simp add: toggleLock_def hasSelection_def Let_def)
  then show ?thesis by simp
qed

theorem toggleLock_group_witness:
  "selectedIds lockState \<noteq> [] \<and>
   map locked (textLayers lockState) = [True, False, False] \<and>
   map locked (textLayers (toggleLock lockState)) = [True, True, False] \<and>
   map locked (textLayers (toggleLock (toggleLock lockState))) = [False, False, False]"
proof -
  have 1: "selectedIds lockState \<noteq> []" by (simp add: lockState_def initial_def)
  have 2: "length (textLayers lockState) = 3" by (simp add: lockState_def initial_def)
  have 3: "map locked (textLayers lockState) = [True, False, False]"
    by (simp add: lockState_def initial_def exampleLayer_def)
  have 4: "map locked (textLayers (toggleLock lockState)) = [True, True, False]"
    by code_simp
  have 5: "map locked (textLayers (toggleLock (toggleLock lockState))) = [False, False, False]"
    by code_simp
  from toggleLock_group [OF 1] 1 3 4 5 show ?thesis by blast
qed






lemma foldl_plus_sum: "foldl (\<lambda>sum layer. sum + f layer) (a::real) xs = a + sum_list (map f xs)"
  by (induction xs arbitrary: a) simp_all

text \<open>
  Claim C8, as amended. With at least two ids selected, \<open>alignLayersVertically\<close> sets the
  \<open>y\<close> of every selected layer to the mean \<open>y\<close> of the selected layers, and
  \<open>alignLayersHorizontally\<close> sets the \<open>x\<close> of every selected layer to their mean \<open>x\<close>
  and changes no \<open>y\<close>; other layers are unchanged. For selected \<open>y\<close> values 10, 20 and
  30, \<open>alignLayersVertically\<close> makes each of them 20.
\<close>

theorem align_sets_mean:
  assumes "length (selectedIds s) \<ge> 2"
  shows "textLayers (alignLayersVertically s) =
           map (\<lambda>layer. if isSelected s layer
                         then layer\<lparr> y_layer := sum_list (map y_layer (selectedLayers s))
                                                  / real (length (selectedLayers s)) \<rparr>
                         else layer) (textLayers s) \<and>
         textLayers (alignLayersHorizontally s) =
           map (\<lambda>layer. if isSelected s layer
                         then layer\<lparr> x_layer := sum_list (map x_layer (selectedLayers s))
                                                  / real (length (selectedLayers s)) \<rparr>
                         else layer) (textLayers s) \<and>
         map y_layer (textLayers (alignLayersHorizontally s)) = map y_layer (textLayers s) \<and>
         (map y_layer (selectedLayers s) = [10, 20, 30] \<longrightarrow>
            (\<forall>i < length (textLayers s).
               (isSelected s (textLayers s ! i) \<longrightarrow>
                  textLayers (alignLayersVertically s) ! i = (textLayers s ! i)\<lparr> y_layer := 20 \<rparr>) \<and>
               (\<not> isSelected s (textLayers s ! i) \<longrightarrow>
                  textLayers (alignLayersVertically s) ! i = textLayers s ! i)))"
proof -
  have v: "textLayers (alignLayersVertically s) =
           map (\<lambda>layer. if isSelected s layer
                         then layer\<lparr> y_layer := sum_list (map y_layer (selectedLayers s))
                                                  / real (length (selectedLayers s)) \<rparr>
                         else layer) (textLayers s)"
    using assms by (simp add: alignLayersVertically_def Let_def foldl_plus_sum)
  have h: "textLayers (alignLayersHorizontally s) =
           map (\<lambda>layer. if isSelected s layer
                         then layer\<lparr> x_layer := sum_list (map x_layer (selectedLayers s))
                                                  / real (length (selectedLayers s)) \<rparr>
                         else layer) (textLayers s)"
    using assms by (simp add: alignLayersHorizontally_def Let_def foldl_plus_sum)
  have y: "map y_layer (textLayers (alignLayersHorizontally s)) = map y_layer (textLayers s)"
    unfolding h by (simp add: comp_def cong: map_cong)
  have m: "\<forall>i < length (textLayers s).
               (isSelected s (textLayers s ! i) \<longrightarrow>
                  textLayers (alignLayersVertically s) ! i = (textLayers s ! i)\<lparr> y_layer := 20 \<rparr>) \<and>
               (\<not> isSelected s (textLayers s ! i) \<longrightarrow>
                  textLayers (alignLayersVertically s) ! i = textLayers s ! i)"
    if ys: "map y_layer (selectedLayers s) = [10, 20, 30]"
  proof -
    from ys have "length (map y_layer (selectedLayers s)) = 3" by simp
    then have "length (selectedLayers s) = 3" by simp
    with ys have "sum_list (map y_layer (selectedLayers s)) / real (length (selectedLayers s)) = 20"
      by simp
    with v show ?thesis by simp
  qed
  from v h y m show ?thesis by blast
qed

theorem align_sets_mean_witness:
  "length (selectedIds alignState) \<ge> 2 \<and>
   map y_layer (selectedLayers alignState) = [10, 20, 30] \<and>
   map y_layer (textLayers (alignLayersVertically alignState)) = [20, 20, 7, 20] \<and>
   map x_layer (textLayers (alignLayersHorizontally alignState)) = [3, 3, 7, 3]"
proof -
  have 1: "length (selectedIds alignState) \<ge> 2" by (simp add: alignState_def initial_def)
  have 2: "map y_layer (selectedLayers alignState) = [10, 20, 30]"
    by (simp add: alignState_def initial_def exampleLayer_def selectedLayers_def isSelected_def)
  have 3: "map x_layer (selectedLayers alignState) = [1, 2, 6]"
    by (simp add: alignState_def initial_def exampleLayer_def selectedLayers_def isSelected_def)
  have 4: "length (selectedLayers alignState) = 3"
    using 2 by (metis length_map length_Cons list.size(3) numeral_3_eq_3)
  have 5: "textLayers alignState = [exampleLayer ''a'' 1 10 False, exampleLayer ''b'' 2 20 False,
                               exampleLayer ''d'' 7 7 False, exampleLayer ''c'' 6 30 False]"
      "selectedIds alignState = [''a'', ''b'', ''c'']"
    by (simp_all add: alignState_def initial_def)
  from align_sets_mean [OF 1] 
  have "textLayers (alignLayersVertically alignState) =
           map (\<lambda>layer. if isSelected alignState layer
                         then layer\<lparr> y_layer := sum_list (map y_layer (selectedLayers alignState))
                                                  / real (length (selectedLayers alignState)) \<rparr>
                         else layer) (textLayers alignState)"
    and "textLayers (alignLayersHorizontally alignState) =
           map (\<lambda>layer. if isSelected alignState layer
                         then layer\<lparr> x_layer := sum_list (map x_layer (selectedLayers alignState))
                                                  / real (length (selectedLayers alignState)) \<rparr>
                         else layer) (textLayers alignState)"
    by blast+
  then have "map y_layer (textLayers (alignLayersVertically alignState)) = [20, 20, 7, 20]"
    and "map x_layer (textLayers (alignLayersHorizontally alignState)) = [3, 3, 7, 3]"
    unfolding 2 3 4 by (simp_all add: 5 isSelected_def exampleLayer_def)
  with 1 2 show ?thesis by blast
qed

text \<open>
  The claim as stated fails: after \<open>alignLayersHorizontally\<close> the selected layers still
  have \<open>y\<close> 10, 20 and 30; it is their \<open>x\<close> that is the mean.
\<close>

theorem alignLayersHorizontally_counterexample:
  "length (selectedIds alignState) \<ge> 2 \<and>
   map y_layer (selectedLayers alignState) = [10, 20, 30] \<and>
   map y_layer (selectedLayers (alignLayersHorizontally alignState)) = [10, 20, 30] \<and>
   map x_layer (selectedLayers (alignLayersHorizontally alignState)) = [3, 3, 3]"
  by code_simp

section \<open>Properties of the persistence adapter\<close>

text \<open>
  Claim C3. After a save that the storage accepts, a load under the same image identity
  succeeds and installs the saved layer collection, history and cursor, whatever the
  state at the time of the load. Under an image identity that differs in url, width or
  height, the load fails, removes the stored record and leaves the state as it is: a
  session that has just started stays in the empty starting state.
\<close>

theorem save_load_roundtrip:
  "loadFromLocalStorage props (saveToLocalStorage timestamp False props s storage) s0 =
     (True,
      s0\<lparr> textLayers := textLayers s, history := history s, currentStep := currentStep s \<rparr>,
      saveToLocalStorage timestamp False props s storage) \<and>
   (imageUrl props' \<noteq> imageUrl props \<or> imageWidth props' \<noteq> imageWidth props \<or>
    imageHeight props' \<noteq> imageHeight props \<longrightarrow>
      loadFromLocalStorage props' (saveToLocalStorage timestamp False props s storage) s0 =
        (False, s0, None) \<and>
      loadFromLocalStorage props' (saveToLocalStorage timestamp False props s storage) initial =
        (False, initial, None))"
  by (auto simp: loadFromLocalStorage_def saveToLocalStorage_def Let_def)

theorem save_load_roundtrip_witness:
  "imageUrl imageB \<noteq> imageUrl imageA \<and>
   loadFromLocalStorage imageA (saveToLocalStorage ''t'' False imageA lockState None) initial =
     (True,
      initial\<lparr> textLayers := textLayers lockState, history := history lockState,
                currentStep := currentStep lockState \<rparr>,
      saveToLocalStorage ''t'' False imageA lockState None) \<and>
   loadFromLocalStorage imageB (saveToLocalStorage ''t'' False imageA lockState None) initial =
     (False, initial, None)"
proof -
  have 1: "imageUrl imageB \<noteq> imageUrl imageA" by (simp add: imageA_def imageB_def)
  from save_load_roundtrip [of imageA "''t''" lockState None initial imageB] 1
  show ?thesis by blast
qed

text \<open>
  Claim C4, as amended. The load does not depend on the stored schema version: replacing
  the version of a stored record changes neither the flag nor the state that the load
  returns, and a stored record with matching image identity is loaded.
\<close>

theorem load_ignores_version:
  "fst (loadFromLocalStorage props (Some (Parsed (parsed\<lparr> version_saved := v \<rparr>))) s) =
     fst (loadFromLocalStorage props (Some (Parsed parsed)) s) \<and>
   fst (snd (loadFromLocalStorage props (Some (Parsed (parsed\<lparr> version_saved := v \<rparr>))) s)) =
     fst (snd (loadFromLocalStorage props (Some (Parsed parsed)) s)) \<and>
   (imageUrl_saved parsed = Some (imageUrl props) \<and>
    imageWidth_saved parsed = Some (imageWidth props) \<and>
    imageHeight_saved parsed = Some (imageHeight props) \<and>
    textLayers_saved parsed = Some layers \<and> history_saved parsed = Some h \<and>
    currentStep_saved parsed = Some c \<longrightarrow>
      loadFromLocalStorage props (Some (Parsed parsed)) s =
        (True, s\<lparr> textLayers := layers, history := h, currentStep := c \<rparr>,
         Some (Parsed parsed)))"
  by (auto simp: loadFromLocalStorage_def)

theorem load_ignores_version_witness:
  "imageUrl_saved laterVersion = Some (imageUrl imageA) \<and>
   imageWidth_saved laterVersion = Some (imageWidth imageA) \<and>
   imageHeight_saved laterVersion = Some (imageHeight imageA) \<and>
   textLayers_saved laterVersion = Some [exampleLayer ''a'' 0 0 False] \<and>
   history_saved laterVersion = Some [[], [exampleLayer ''a'' 0 0 False]] \<and>
   currentStep_saved laterVersion = Some 1 \<and>
   loadFromLocalStorage imageA (Some (Parsed laterVersion)) initial =
     (True,
      initial\<lparr> textLayers := [exampleLayer ''a'' 0 0 False],
                history := [[], [exampleLayer ''a'' 0 0 False]], currentStep := 1 \<rparr>,
      Some (Parsed laterVersion))"
proof -
  have 1: "imageUrl_saved laterVersion = Some (imageUrl imageA) \<and>
   imageWidth_saved laterVersion = Some (imageWidth imageA) \<and>
   imageHeight_saved laterVersion = Some (imageHeight imageA) \<and>
   textLayers_saved laterVersion = Some [exampleLayer ''a'' 0 0 False] \<and>
   history_saved laterVersion = Some [[], [exampleLayer ''a'' 0 0 False]] \<and>
   currentStep_saved laterVersion = Some 1"
    by (simp add: laterVersion_def imageA_def)
  from load_ignores_version [where props = imageA and parsed = laterVersion and s = initial
      and layers = "[exampleLayer ''a'' 0 0 False]"
      and h = "[[], [exampleLayer ''a'' 0 0 False]]" and c = 1] 1
  show ?thesis by blast
qed

text \<open>
  The claim as stated fails: a stored record of version 2.0 with matching image identity
  is not discarded; its layers are installed.
\<close>

theorem load_version_counterexample:
  "version_saved laterVersion = Some ''2.0'' \<and>
   version_saved laterVersion \<noteq> Some ''1.0'' \<and>
   fst (loadFromLocalStorage imageA (Some (Parsed laterVersion)) initial) \<and>
   textLayers (fst (snd (loadFromLocalStorage imageA (Some (Parsed laterVersion)) initial)))
     = [exampleLayer ''a'' 0 0 False] \<and>
   fst (snd (loadFromLocalStorage imageA (Some (Parsed laterVersion)) initial)) \<noteq> initial"
  by (simp add: laterVersion_def imageA_def loadFromLocalStorage_def initial_def)

section \<open>Properties of the arc placement\<close>

lemma arcPosition_placedAt:
  "arcPosition cx cy r angle t = placedAt cx cy r (- angle / 2 + t * angle)"
proof -
  have eq1: "- (angle * pi / 180) / 2 + t * (angle * pi / 180) = (- angle / 2 + t * angle) * pi / 180"
    by (simp add: algebra_simps)
  have eq2: "(- angle / 2 + t * angle) * pi / 180 * 180 / pi = - angle / 2 + t * angle"
    by simp
  show ?thesis
    by (simp only: arcPosition_def placedAt_def Let_def eq1 eq2)
qed

lemma getPositionAndRotation_arc:
  assumes "warpPathType layer = ''arc'' \<or> warpPathType layer = []"
  shows "getPositionAndRotation layer index n =
           arcPosition (x_layer layer) (y_layer layer) (warpRadius layer) (warpAngle layer)
             (real index / real (max (n - 1) 1))"
proof -
  from assms have "(if warpPathType layer = [] then ''arc'' else warpPathType layer) = ''arc''"
    by auto
  then show ?thesis
    unfolding getPositionAndRotation_def Let_def by (simp only: simp_thms if_True)
qed

lemma placedAt_zero: "placedAt cx cy r 0 = (cx + r, cy, 90)"
  by (simp add: placedAt_def)

text \<open>
  Claim C9. For a layer on the arc path (path type \<open>arc\<close>, or empty, which reads as
  \<open>arc\<close>), the character of index \<open>index\<close> among \<open>n\<close> is placed at the angle
  \<open>-angle / 2 + t * angle\<close> degrees round the anchor, \<open>t = index / max (n - 1) 1\<close>, and
  its rotation is that angle plus 90. The first character (\<open>t = 0\<close>) is at \<open>-angle / 2\<close>,
  the last of at least two (\<open>t = 1\<close>) at \<open>angle / 2\<close>, and the middle one of an odd number
  (\<open>t = 1 / 2\<close>) at angle 0, which is the point \<open>(x + radius, y)\<close>.
\<close>

theorem arc_endpoints_and_midpoint:
  assumes "warpPathType layer = ''arc'' \<or> warpPathType layer = []"
  shows "getPositionAndRotation layer index n =
           placedAt (x_layer layer) (y_layer layer) (warpRadius layer)
             (- warpAngle layer / 2 + (real index / real (max (n - 1) 1)) * warpAngle layer) \<and>
         getPositionAndRotation layer 0 n =
           placedAt (x_layer layer) (y_layer layer) (warpRadius layer) (- warpAngle layer / 2) \<and>
         (2 \<le> n \<longrightarrow>
            getPositionAndRotation layer (n - 1) n =
              placedAt (x_layer layer) (y_layer layer) (warpRadius layer) (warpAngle layer / 2)) \<and>
         (1 \<le> k \<longrightarrow>
            getPositionAndRotation layer k (2 * k + 1) =
              placedAt (x_layer layer) (y_layer layer) (warpRadius layer) 0 \<and>
            getPositionAndRotation layer k (2 * k + 1) =
              (x_layer layer + warpRadius layer, y_layer layer, 90))"
proof -
  have g: "getPositionAndRotation layer i m =
           placedAt (x_layer layer) (y_layer layer) (warpRadius layer)
             (- warpAngle layer / 2 + (real i / real (max (m - 1) 1)) * warpAngle layer)" for i m
    by (simp only: getPositionAndRotation_arc [OF assms] arcPosition_placedAt)
  have b: "getPositionAndRotation layer 0 n =
           placedAt (x_layer layer) (y_layer layer) (warpRadius layer) (- warpAngle layer / 2)"
    by (simp add: g)
  have c: "getPositionAndRotation layer (n - 1) n =
              placedAt (x_layer layer) (y_layer layer) (warpRadius layer) (warpAngle layer / 2)"
    if "2 \<le> n"
  proof -
    from that have "max (n - 1) 1 = n - 1" by simp
    moreover from that have "real (n - 1) \<noteq> 0" by simp
    ultimately have "real (n - 1) / real (max (n - 1) 1) = 1" by simp
    then have "getPositionAndRotation layer (n - 1) n =
           placedAt (x_layer layer) (y_layer layer) (warpRadius layer)
             (- warpAngle layer / 2 + 1 * warpAngle layer)"
      by (simp only: g)
    moreover have "- warpAngle layer / 2 + 1 * warpAngle layer = warpAngle layer / 2" by simp
    ultimately show ?thesis by (simp only:)
  qed
  have d: "getPositionAndRotation layer k (2 * k + 1) =
              placedAt (x_layer layer) (y_layer layer) (warpRadius layer) 0"
    if "1 \<le> k"
  proof -
    from that have "max (2 * k + 1 - 1) 1 = 2 * k" by simp
    moreover from that have "real k \<noteq> 0" by simp
    ultimately have "real k / real (max (2 * k + 1 - 1) 1) = 1 / 2" by simp
    then have "getPositionAndRotation layer k (2 * k + 1) =
           placedAt (x_layer layer) (y_layer layer) (warpRadius layer)
             (- warpAngle layer / 2 + (1 / 2) * warpAngle layer)"
      by (simp only: g)
    moreover have "- warpAngle layer / 2 + (1 / 2) * warpAngle layer = 0" by simp
    ultimately show ?thesis by (simp only:)
  qed
  have e: "getPositionAndRotation layer k (2 * k + 1) =
              (x_layer layer + warpRadius layer, y_layer layer, 90)"
    if "1 \<le> k"
    using d [OF that] by (simp only: placedAt_zero)
  from g [of index n] b c d e show ?thesis by blast
qed

lemma placedAt_quarter:
  "placedAt cx cy r (- 90) = (cx, cy - r, 0)" "placedAt cx cy r 90 = (cx, cy + r, 180)"
proof -
  have "(- 90) * pi / 180 = - (pi / 2)" by simp
  then have "cos ((- 90) * pi / 180) = 0" "sin ((- 90) * pi / 180) = - 1"
    by (simp_all only: cos_minus sin_minus cos_pi_half sin_pi_half)
  then show "placedAt cx cy r (- 90) = (cx, cy - r, 0)" unfolding placedAt_def by simp
  have "90 * pi / 180 = pi / 2" by simp
  then have "cos (90 * pi / 180) = 0" "sin (90 * pi / 180) = 1"
    by (simp_all only: cos_pi_half sin_pi_half)
  then show "placedAt cx cy r 90 = (cx, cy + r, 180)" unfolding placedAt_def by simp
qed

theorem arc_endpoints_and_midpoint_witness:
  "(warpPathType (exampleLayer ''a'' 5 7 False) = ''arc'' \<or>
    warpPathType (exampleLayer ''a'' 5 7 False) = []) \<and> (2::nat) \<le> 3 \<and> (1::nat) \<le> 1 \<and>
   getPositionAndRotation (exampleLayer ''a'' 5 7 False) 0 3 = (5, -93, 0) \<and>
   getPositionAndRotation (exampleLayer ''a'' 5 7 False) 1 3 = (105, 7, 90) \<and>
   getPositionAndRotation (exampleLayer ''a'' 5 7 False) 2 3 = (5, 107, 180)"
proof -
  let ?l = "exampleLayer ''a'' 5 7 False"
  have 1: "warpPathType ?l = ''arc'' \<or> warpPathType ?l = []" by (simp add: exampleLayer_def)
  have v: "x_layer ?l = 5" "y_layer ?l = 7" "warpRadius ?l = 100" "warpAngle ?l = 180"
    by (simp_all add: exampleLayer_def)
  have n: "(3::nat) - 1 = 2" "2 * (1::nat) + 1 = 3" "- (180::real) / 2 = - 90" "(180::real) / 2 = 90"
    "(5::real) + 100 = 105"
    by simp_all
  have h: "(2::nat) \<le> 3" "(1::nat) \<le> 1" by simp_all
  from arc_endpoints_and_midpoint [OF 1, of 0 3 1] h
  have "getPositionAndRotation ?l 0 3 = placedAt 5 7 100 (- 90)"
    and "getPositionAndRotation ?l 2 3 = placedAt 5 7 100 90"
    and "getPositionAndRotation ?l 1 3 = (105, 7, 90)"
    unfolding v n by blast+
  then have "getPositionAndRotation ?l 0 3 = (5, -93, 0)"
    and "getPositionAndRotation ?l 2 3 = (5, 107, 180)"
    and "getPositionAndRotation ?l 1 3 = (105, 7, 90)"
    by (simp_all add: placedAt_quarter)
  with 1 h show ?thesis by blast
qed

end
